theory Spec2Isabelle
  imports
    Complex_Main
    "HOL-Library.Multiset"
    "HOL-Library.Product_Lexorder"
    "HOL-Library.Char_ord"
    "HOL-Library.List_Lexorder"
begin

section \<open>Cells, rows and data frames\<close>

text \<open>
  \<^verbatim>\<open>dash.py\<close> works on pandas data frames. A cell is a missing value (NaN, NaT, an empty
  spreadsheet cell), a finite number, one of the two float infinities, a text, a timestamp
  (nanoseconds since the epoch) or a truth value. Finite numbers are exact reals: the
  rounding of float64 is not modelled, the special values of float64 are.
\<close>

datatype val = VNaN | VNum real | VPInf | VNInf | VStr string | VTime int | VBool bool

type_synonym row = "string \<Rightarrow> val option"

record dataframe =
  columns :: "string list"
  rows :: "row list"

datatype erro =
    KeyError string
  | TypeError
  | ParseError
  | IndexError
  | FileError
  | NameError
  | NotImplementedError
  | DadosIncompletos

text \<open>
  The first seven are Python exceptions. \<open>DadosIncompletos\<close> is the message
  \<^verbatim>\<open>st.error("Dados incompletos para analise de risco de churn")\<close> of line 191 (written
  here without its accents), which is reported without raising.
\<close>

definition cell :: "row \<Rightarrow> string \<Rightarrow> val" where
  "cell r c = (case r c of None \<Rightarrow> VNaN | Some v \<Rightarrow> v)"

definition df_vazio :: dataframe where
  "df_vazio = \<lparr>columns = [], rows = []\<rparr>"

definition empty_df :: "dataframe \<Rightarrow> bool" where
  "empty_df df = (columns df = [] \<or> rows df = [])"

definition bind_err :: "erro + 'a \<Rightarrow> ('a \<Rightarrow> erro + 'b) \<Rightarrow> erro + 'b" where
  "bind_err m f = (case m of Inl e \<Rightarrow> Inl e | Inr x \<Rightarrow> f x)"

fun sequence :: "(erro + 'a) list \<Rightarrow> erro + 'a list" where
  "sequence [] = Inr []"
| "sequence (m # ms) =
     (case m of Inl e \<Rightarrow> Inl e
      | Inr x \<Rightarrow> (case sequence ms of Inl e \<Rightarrow> Inl e | Inr xs \<Rightarrow> Inr (x # xs)))"

subsection \<open>Column names\<close>

text \<open>
  The column names of the source, byte for byte in UTF-8 (a letter with an accent is two
  bytes, written \<open>CHR 0x..\<close>).
\<close>

definition col_nome :: string where
  "col_nome = ''Nome do Parceiro''"

definition col_cidade :: string where
  "col_cidade = ''Cidade''"

definition col_canal :: string where
  "col_canal = ''Canal de aquisi'' @ [CHR 0xC3, CHR 0xA7, CHR 0xC3, CHR 0xA3] @ ''o''"

definition col_tipo :: string where
  "col_tipo = ''Tipo de parceiro''"

definition col_status :: string where
  "col_status = ''Status da parceria''"

definition col_indicacoes :: string where
  "col_indicacoes = ''Quantidade de indica'' @ [CHR 0xC3, CHR 0xA7, CHR 0xC3, CHR 0xB5]
     @ ''es de propriet'' @ [CHR 0xC3, CHR 0xA1] @ ''rios''"

definition col_fechadas :: string where
  "col_fechadas = ''Quantidade de indica'' @ [CHR 0xC3, CHR 0xA7, CHR 0xC3, CHR 0xB5]
     @ ''es que foram fechadas''"

definition col_qualificadas :: string where
  "col_qualificadas = ''Quantidade de indica'' @ [CHR 0xC3, CHR 0xA7, CHR 0xC3, CHR 0xB5]
     @ ''es que foram qualificadas''"

definition col_data :: string where
  "col_data = ''Data de '' @ [CHR 0xC3, CHR 0xBA] @ ''ltimo contato''"

definition col_nps :: string where
  "col_nps = ''NPS da '' @ [CHR 0xC3, CHR 0xBA] @ ''ltima intera''
     @ [CHR 0xC3, CHR 0xA7, CHR 0xC3, CHR 0xA3] @ ''o''"

definition col_taxa_conv :: string where
  "col_taxa_conv = ''Taxa Convers'' @ [CHR 0xC3, CHR 0xA3] @ ''o''"

definition col_taxa_qual :: string where
  "col_taxa_qual = ''Taxa Qualifica'' @ [CHR 0xC3, CHR 0xA7, CHR 0xC3, CHR 0xA3] @ ''o''"

definition col_dias :: string where
  "col_dias = ''Dias sem contato''"

definition col_risco :: string where
  "col_risco = ''Risco Churn''"

definition col_taxa_media :: string where
  "col_taxa_media = ''Taxa M'' @ [CHR 0xC3, CHR 0xA9] @ ''dia de Convers''
     @ [CHR 0xC3, CHR 0xA3] @ ''o''"

definition col_qtd_parceiros :: string where
  "col_qtd_parceiros = ''Quantidade de Parceiros''"

subsection \<open>Series and column assignment\<close>

text \<open>\<^verbatim>\<open>df[c]\<close>: the column as a list of cells, \<^verbatim>\<open>KeyError\<close> when the frame has no such column.\<close>

definition series :: "dataframe \<Rightarrow> string \<Rightarrow> erro + val list" where
  "series df c =
     (if c \<in> set (columns df) then Inr (map (\<lambda>r. cell r c) (rows df)) else Inl (KeyError c))"

text \<open>
  \<^verbatim>\<open>df[c] = vs\<close>: overwrites the column in place when it exists and appends it otherwise.
  Every series the program assigns is computed from the columns of the same frame, so
  it has one value per row.
\<close>

definition set_column :: "dataframe \<Rightarrow> string \<Rightarrow> val list \<Rightarrow> dataframe" where
  "set_column df c vs =
     \<lparr>columns = (if c \<in> set (columns df) then columns df else columns df @ [c]),
      rows = map (\<lambda>(r, v). r(c \<mapsto> v)) (zip (rows df) vs)\<rparr>"

section \<open>load_data (lines 11 to 28)\<close>

text \<open>
  Float division as numpy does it with its warnings silenced: a finite number divided by
  zero is an infinity with the sign of the numerator, zero divided by zero is NaN.
  Denominators read from a spreadsheet are never the negative zero.
\<close>

fun fdiv :: "val \<Rightarrow> val \<Rightarrow> val" where
  "fdiv (VNum x) (VNum y) =
     (if y \<noteq> 0 then VNum (x / y)
      else if 0 < x then VPInf else if x < 0 then VNInf else VNaN)"
| "fdiv (VNum x) VPInf = VNum 0"
| "fdiv (VNum x) VNInf = VNum 0"
| "fdiv VPInf (VNum y) = (if 0 \<le> y then VPInf else VNInf)"
| "fdiv VNInf (VNum y) = (if 0 \<le> y then VNInf else VPInf)"
| "fdiv _ _ = VNaN"

definition numeric :: "val \<Rightarrow> bool" where
  "numeric v = (case v of VStr _ \<Rightarrow> False | VTime _ \<Rightarrow> False | _ \<Rightarrow> True)"

definition as_float :: "val \<Rightarrow> val" where
  "as_float v = (case v of VBool b \<Rightarrow> VNum (if b then 1 else 0) | _ \<Rightarrow> v)"

text \<open>
  \<^verbatim>\<open>a / b\<close> on two cells: a text or a timestamp raises \<^verbatim>\<open>TypeError\<close>; a truth value
  beside a number counts as 0 or 1.
\<close>

definition truediv :: "val \<Rightarrow> val \<Rightarrow> erro + val" where
  "truediv a b =
     (if numeric a \<and> numeric b then Inr (fdiv (as_float a) (as_float b)) else Inl TypeError)"

text \<open>
  \<^verbatim>\<open>a / b\<close> on two columns. pandas refuses to divide two columns of dtype \<^verbatim>\<open>bool\<close>, which
  are the columns with at least one cell where every cell is a truth value
  (\<^verbatim>\<open>NotImplementedError\<close>); any other pair is divided cell by cell.
\<close>

fun is_bool :: "val \<Rightarrow> bool" where
  "is_bool (VBool b) = True"
| "is_bool v = False"

definition div_series :: "val list \<Rightarrow> val list \<Rightarrow> erro + val list" where
  "div_series xs ys =
     (if xs \<noteq> [] \<and> ys \<noteq> [] \<and> list_all is_bool xs \<and> list_all is_bool ys
      then Inl NotImplementedError
      else sequence (map (\<lambda>(x, y). truediv x y) (zip xs ys)))"

text \<open>\<^verbatim>\<open>.fillna(0)\<close> replaces NaN, and nothing else, by 0.\<close>

definition fillna0 :: "val \<Rightarrow> val" where
  "fillna0 v = (if v = VNaN then VNum 0 else v)"

text \<open>
  \<^verbatim>\<open>pd.to_datetime(series)\<close> with its default \<^verbatim>\<open>errors="raise"\<close>. A missing cell becomes NaT
  and a timestamp stays. The conversion of any other scalar is pandas' own parser, which
  is not part of the repository: it is the parameter \<open>conv\<close>, \<open>None\<close> where pandas
  raises. pandas settles the date format once for a column of texts, from its first text:
  \<open>conv\<close> stands for the parser with the format settled for the column at hand.
\<close>

definition unparseable :: "(val \<Rightarrow> int option) \<Rightarrow> val \<Rightarrow> bool" where
  "unparseable conv v =
     (case v of VNaN \<Rightarrow> False | VTime _ \<Rightarrow> False | _ \<Rightarrow> conv v = None)"

definition to_datetime :: "(val \<Rightarrow> int option) \<Rightarrow> val \<Rightarrow> erro + val" where
  "to_datetime conv v =
     (case v of
        VNaN \<Rightarrow> Inr VNaN
      | VTime t \<Rightarrow> Inr (VTime t)
      | _ \<Rightarrow> (case conv v of None \<Rightarrow> Inl ParseError | Some t \<Rightarrow> Inr (VTime t)))"

definition to_datetime_series :: "(val \<Rightarrow> int option) \<Rightarrow> val list \<Rightarrow> erro + val list" where
  "to_datetime_series conv vs = sequence (map (to_datetime conv) vs)"

definition ns_por_dia :: int where
  "ns_por_dia = 86400 * 1000000000"

text \<open>\<^verbatim>\<open>(today - t).days\<close>: whole days, rounded down; missing when \<open>t\<close> is NaT.\<close>

definition dias_desde :: "int \<Rightarrow> val \<Rightarrow> val" where
  "dias_desde hoje v =
     (case v of VTime t \<Rightarrow> VNum (of_int ((hoje - t) div ns_por_dia)) | _ \<Rightarrow> VNaN)"

text \<open>The body of the \<^verbatim>\<open>try\<close> after \<^verbatim>\<open>read_excel\<close>, lines 16 to 25.\<close>

definition preprocessar :: "(val \<Rightarrow> int option) \<Rightarrow> int \<Rightarrow> dataframe \<Rightarrow> erro + dataframe" where
  "preprocessar conv hoje df0 =
     bind_err (series df0 col_fechadas) (\<lambda>fech.
     bind_err (series df0 col_indicacoes) (\<lambda>ind.
     bind_err (div_series fech ind) (\<lambda>q.
     let df1 = set_column df0 col_taxa_conv (map fillna0 q) in
     bind_err (series df1 col_qualificadas) (\<lambda>qual.
     bind_err (series df1 col_indicacoes) (\<lambda>ind1.
     bind_err (div_series qual ind1) (\<lambda>q1.
     let df2 = set_column df1 col_taxa_qual (map fillna0 q1) in
     bind_err (series df2 col_data) (\<lambda>datas.
     bind_err (to_datetime_series conv datas) (\<lambda>ts.
     let df3 = set_column df2 col_data ts in
     bind_err (series df3 col_data) (\<lambda>ts1.
     Inr (set_column df3 col_dias (map (dias_desde hoje) ts1)))))))))))"

text \<open>
  \<open>load_data\<close>: \<open>excel\<close> is what \<^verbatim>\<open>pd.read_excel("Base.xlsx")\<close> gave, a frame or an
  exception. Any exception of the body is caught by the one \<^verbatim>\<open>except\<close> of the function,
  which shows it and returns \<^verbatim>\<open>pd.DataFrame()\<close>. The result is the error shown, if any,
  and the frame returned.
\<close>

definition load_data ::
  "(val \<Rightarrow> int option) \<Rightarrow> int \<Rightarrow> erro + dataframe \<Rightarrow> erro option \<times> dataframe" where
  "load_data conv hoje excel =
     (case bind_err excel (preprocessar conv hoje) of
        Inl e \<Rightarrow> (Some e, df_vazio)
      | Inr df \<Rightarrow> (None, df))"

section \<open>The filters (lines 70 to 73)\<close>

text \<open>
  \<open>filtros\<close> is a Python dict, read in insertion order: a list of pairs of a column name
  and the list of values selected for it. One turn of the loop keeps the rows whose cell
  is among the selected values (\<^verbatim>\<open>isin\<close>, where NaN matches NaN), and does so only when the
  selection is a non-empty list and the frame has the column.
\<close>

type_synonym filtros = "(string \<times> val list) list"

definition aplica :: "dataframe \<Rightarrow> string \<times> val list \<Rightarrow> bool" where
  "aplica f cv = (snd cv \<noteq> [] \<and> fst cv \<in> set (columns f))"

definition selecionar :: "dataframe \<Rightarrow> string \<times> val list \<Rightarrow> dataframe" where
  "selecionar f cv = f\<lparr>rows := filter (\<lambda>r. cell r (fst cv) \<in> set (snd cv)) (rows f)\<rparr>"

definition filtrar :: "dataframe \<Rightarrow> string \<times> val list \<Rightarrow> dataframe" where
  "filtrar f cv = (if aplica f cv then selecionar f cv else f)"

definition aplicar_filtros :: "dataframe \<Rightarrow> filtros \<Rightarrow> dataframe" where
  "aplicar_filtros df fs = foldl filtrar df fs"

text \<open>The rows that the whole loop keeps: those accepted by every entry that applies.\<close>

definition passa :: "dataframe \<Rightarrow> filtros \<Rightarrow> row \<Rightarrow> bool" where
  "passa d fs =
     (\<lambda>r. \<forall>cv \<in> set fs. aplica d cv \<longrightarrow> cell r (fst cv) \<in> set (snd cv))"

section \<open>Sorting (sort_values, head)\<close>

text \<open>
  \<open>chave\<close> places a cell in the order that sorting follows: the floats on the extended
  real line (a truth value counts as 0 or 1), the timestamps by their instant, the texts
  byte by byte. Within one of these kinds this is Python's \<^verbatim>\<open><\<close>; a column that mixes
  texts or timestamps with numbers cannot be sorted by pandas at all (\<^verbatim>\<open>TypeError\<close>), and
  the order between the kinds is the one \<^verbatim>\<open>groupby\<close> uses for its keys. \<open>antes k k'\<close> says
  that key \<open>k\<close> may stand before key \<open>k'\<close> in a descending order with the missing values
  last.
\<close>

definition chave :: "val \<Rightarrow> int \<times> real \<times> string" where
  "chave v =
     (case v of
        VNInf \<Rightarrow> (0, 0, [])
      | VNum x \<Rightarrow> (1, x, [])
      | VBool b \<Rightarrow> (1, if b then 1 else 0, [])
      | VPInf \<Rightarrow> (2, 0, [])
      | VTime t \<Rightarrow> (3, real_of_int t, [])
      | VStr s \<Rightarrow> (4, 0, s)
      | VNaN \<Rightarrow> (5, 0, []))"

definition antes :: "val \<Rightarrow> val \<Rightarrow> bool" where
  "antes k k' = (k' = VNaN \<or> (k \<noteq> VNaN \<and> chave k' \<le> chave k))"

text \<open>
  \<^verbatim>\<open>sort_values\<close> is called with its default \<^verbatim>\<open>kind="quicksort"\<close>, so the keys without NaN
  go to numpy's \<^verbatim>\<open>argsort(kind="quicksort")\<close>. That routine is not part of the repository:
  it is the parameter \<open>a\<close>. Its contract is \<open>argsort_ok\<close>: on keys without NaN, the
  result lists the positions of the input, each once, in an order in which the keys do
  not decrease. The order of positions that hold equal keys is not part of the contract.
\<close>

type_synonym argsort = "val list \<Rightarrow> nat list"

definition argsort_ok :: "argsort \<Rightarrow> bool" where
  "argsort_ok a =
     (\<forall>ks. VNaN \<notin> set ks \<longrightarrow>
        mset (a ks) = mset [0..<length ks] \<and> sorted (map (\<lambda>i. chave (ks ! i)) (a ks)))"

text \<open>
  pandas' \<^verbatim>\<open>nargsort\<close> with \<^verbatim>\<open>na_position="last"\<close>: the positions of the missing keys
  are set aside and appended at the end; for a descending order the other keys are
  reversed, sorted ascending, and the result is reversed again.
\<close>

definition nargsort :: "argsort \<Rightarrow> val list \<Rightarrow> bool \<Rightarrow> nat list" where
  "nargsort a items ascending =
     (let idx = [0..<length items];
          non_nan_idx = filter (\<lambda>i. items ! i \<noteq> VNaN) idx;
          nan_idx = filter (\<lambda>i. items ! i = VNaN) idx;
          non_nans = map (\<lambda>i. items ! i) non_nan_idx
      in if ascending
         then map (\<lambda>j. non_nan_idx ! j) (a non_nans) @ nan_idx
         else rev (map (\<lambda>j. rev non_nan_idx ! j) (a (rev non_nans))) @ nan_idx)"

definition sort_values :: "argsort \<Rightarrow> dataframe \<Rightarrow> string \<Rightarrow> bool \<Rightarrow> erro + dataframe" where
  "sort_values a df by ascending =
     (if by \<in> set (columns df)
      then Inr (df\<lparr>rows := map (\<lambda>i. rows df ! i)
                                (nargsort a (map (\<lambda>r. cell r by) (rows df)) ascending)\<rparr>)
      else Inl (KeyError by))"

definition head :: "nat \<Rightarrow> dataframe \<Rightarrow> dataframe" where
  "head n df = df\<lparr>rows := take n (rows df)\<rparr>"

text \<open>Line 97.\<close>

definition top_parceiros :: "argsort \<Rightarrow> dataframe \<Rightarrow> erro + dataframe" where
  "top_parceiros a filtro =
     bind_err (sort_values a filtro col_taxa_conv False) (\<lambda>s. Inr (head 10 s))"

text \<open>A sorting routine that meets the contract: insertion sort over the positions.\<close>

definition argsort_estavel :: argsort where
  "argsort_estavel ks = sort_key (\<lambda>i. chave (ks ! i)) [0..<length ks]"

subsection \<open>numpy's quicksort\<close>

text \<open>
  For a picture of what \<^verbatim>\<open>argsort(kind="quicksort")\<close> does with equal keys, this is
  numpy's portable routine \<^verbatim>\<open>aquicksort_\<close> (\<^verbatim>\<open>npysort/quicksort.cpp\<close>): \<open>v\<close> are the keys,
  \<open>t\<close> the array of positions being permuted, \<open>pl\<close> and \<open>pr\<close> the first and last index
  of the range at work. A range of more than 17 positions is partitioned around the
  median of its first, middle and last key; a shorter one is sorted by insertion. numpy
  builds that dispatch a SIMD routine for the key type order equal keys in yet another
  way.
\<close>

definition tag_less :: "val \<Rightarrow> val \<Rightarrow> bool" where
  "tag_less x y = (chave x < chave y)"

definition intp_swap :: "nat list \<Rightarrow> nat \<Rightarrow> nat \<Rightarrow> nat list" where
  "intp_swap t i j = t[i := t ! j, j := t ! i]"

text \<open>
  The insertion sort of the range: the inner \<^verbatim>\<open>while\<close> shifts the positions whose key is
  greater than \<open>vp\<close> one place up, down from index \<open>pj\<close>.
\<close>

fun shift_up :: "val list \<Rightarrow> val \<Rightarrow> nat \<Rightarrow> nat list \<Rightarrow> nat \<Rightarrow> nat list \<times> nat" where
  "shift_up v vp pl t 0 = (t, 0)"
| "shift_up v vp pl t (Suc k) =
     (if pl < Suc k \<and> tag_less vp (v ! (t ! k)) then shift_up v vp pl (t[Suc k := t ! k]) k
      else (t, Suc k))"

definition insert_at :: "val list \<Rightarrow> nat \<Rightarrow> nat list \<Rightarrow> nat \<Rightarrow> nat list" where
  "insert_at v pl t p =
     (let vi = t ! p in case shift_up v (v ! vi) pl t p of (t1, pj) \<Rightarrow> t1[pj := vi])"

definition insertion_sort :: "val list \<Rightarrow> nat list \<Rightarrow> nat \<Rightarrow> nat \<Rightarrow> nat list" where
  "insertion_sort v t pl pr = foldl (insert_at v pl) t [Suc pl..<Suc pr]"

text \<open>
  The two scans of the partition: \<^verbatim>\<open>do ++pi; while (less(v[*pi], vp))\<close> and
  \<^verbatim>\<open>do --pj; while (less(vp, v[*pj]))\<close>. In the C code the median and the pivot stop
  them; here the ends of the array do as well.
\<close>

function scan_up :: "val list \<Rightarrow> nat list \<Rightarrow> val \<Rightarrow> nat \<Rightarrow> nat" where
  "scan_up v t vp i =
     (if Suc i < length t \<and> tag_less (v ! (t ! Suc i)) vp then scan_up v t vp (Suc i)
      else Suc i)"
  by pat_completeness auto
termination
  by (relation "measure (\<lambda>(v, t, vp, i). length t - i)") auto

declare scan_up.simps [simp del]

fun scan_down :: "val list \<Rightarrow> nat list \<Rightarrow> val \<Rightarrow> nat \<Rightarrow> nat" where
  "scan_down v t vp 0 = 0"
| "scan_down v t vp (Suc j) = (if tag_less vp (v ! (t ! j)) then scan_down v t vp j else j)"

text \<open>
  The \<^verbatim>\<open>for (;;)\<close> of the partition; the first argument bounds its turns (each turn moves
  both indices, so the length of the range is enough).
\<close>

fun partition_loop ::
  "nat \<Rightarrow> val list \<Rightarrow> nat list \<Rightarrow> val \<Rightarrow> nat \<Rightarrow> nat \<Rightarrow> (nat list \<times> nat) option" where
  "partition_loop 0 v t vp i j = None"
| "partition_loop (Suc n) v t vp i j =
     (let i1 = scan_up v t vp i; j1 = scan_down v t vp j
      in if j1 \<le> i1 then Some (t, i1) else partition_loop n v (intp_swap t i1 j1) vp i1 j1)"

definition partition_range ::
  "val list \<Rightarrow> nat list \<Rightarrow> nat \<Rightarrow> nat \<Rightarrow> (nat list \<times> nat) option" where
  "partition_range v t pl pr =
     (let pm = pl + (pr - pl) div 2;
          t1 = (if tag_less (v ! (t ! pm)) (v ! (t ! pl)) then intp_swap t pm pl else t);
          t2 = (if tag_less (v ! (t1 ! pr)) (v ! (t1 ! pm)) then intp_swap t1 pr pm else t1);
          t3 = (if tag_less (v ! (t2 ! pm)) (v ! (t2 ! pl)) then intp_swap t2 pm pl else t2);
          vp = v ! (t3 ! pm)
      in case partition_loop (pr - pl) v (intp_swap t3 pm (pr - 1)) vp pl (pr - 1) of
           None \<Rightarrow> None
         | Some (t4, i) \<Rightarrow> Some (intp_swap t4 i (pr - 1), i))"

text \<open>
  The outer loop with its stack of ranges, as a recursion: the two parts of a partition
  are disjoint, so the order in which they are sorted does not matter. The first argument
  is the depth still allowed; past it numpy sorts the range by heapsort, which is not
  modelled: the result is \<open>None\<close>.
\<close>

fun aquicksort_range :: "nat \<Rightarrow> val list \<Rightarrow> nat list \<Rightarrow> nat \<Rightarrow> nat \<Rightarrow> nat list option" where
  "aquicksort_range 0 v t pl pr =
     (if 16 < pr - pl then None else Some (insertion_sort v t pl pr))"
| "aquicksort_range (Suc c) v t pl pr =
     (if 16 < pr - pl
      then (case partition_range v t pl pr of
              None \<Rightarrow> None
            | Some (t1, i) \<Rightarrow>
                (case aquicksort_range c v t1 pl (i - 1) of
                   None \<Rightarrow> None
                 | Some t2 \<Rightarrow> aquicksort_range c v t2 (Suc i) pr))
      else Some (insertion_sort v t pl pr))"

fun npy_get_msb :: "nat \<Rightarrow> nat" where
  "npy_get_msb n = (if n < 2 then 0 else Suc (npy_get_msb (n div 2)))"

declare npy_get_msb.simps [simp del]

definition aquicksort :: "val list \<Rightarrow> nat list option" where
  "aquicksort v =
     aquicksort_range (2 * npy_get_msb (length v)) v [0..<length v] 0 (length v - 1)"

text \<open>As a sorting routine for \<open>sort_values\<close>; the examples stay within the depth limit.\<close>

definition argsort_numpy :: argsort where
  "argsort_numpy v = (case aquicksort v of Some t \<Rightarrow> t | None \<Rightarrow> [0..<length v])"

section \<open>Means and the general metrics (lines 84 to 88)\<close>

fun fadd :: "val \<Rightarrow> val \<Rightarrow> val" where
  "fadd (VNum x) (VNum y) = VNum (x + y)"
| "fadd VPInf VNInf = VNaN"
| "fadd VNInf VPInf = VNaN"
| "fadd VPInf (VNum y) = VPInf"
| "fadd (VNum x) VPInf = VPInf"
| "fadd VPInf VPInf = VPInf"
| "fadd VNInf (VNum y) = VNInf"
| "fadd (VNum x) VNInf = VNInf"
| "fadd VNInf VNInf = VNInf"
| "fadd _ _ = VNaN"

text \<open>
  \<^verbatim>\<open>.mean()\<close>: the missing values are skipped; no value left gives NaN; a text raises.
  The sum is the plain float sum, over exact reals: two means that are equal here can
  differ in their last bit in float64. pandas can also average a column of timestamps;
  that is not modelled and raises here like a text. The columns the script averages are
  the two rates, which \<open>load_data\<close> computed by a division, and the NPS.
\<close>

definition mean :: "val list \<Rightarrow> erro + val" where
  "mean vs =
     (if \<exists>v \<in> set vs. \<not> numeric v then Inl TypeError
      else let xs = filter (\<lambda>v. v \<noteq> VNaN) (map as_float vs)
           in if xs = [] then Inr VNaN
              else Inr (fdiv (foldl fadd (VNum 0) xs) (VNum (real (length xs)))))"

definition metricas :: "dataframe \<Rightarrow> erro + nat \<times> val \<times> val \<times> val option" where
  "metricas filtro =
     bind_err (series filtro col_taxa_conv) (\<lambda>tc.
     bind_err (mean tc) (\<lambda>m1.
     bind_err (series filtro col_taxa_qual) (\<lambda>tq.
     bind_err (mean tq) (\<lambda>m2.
     bind_err (if col_nps \<in> set (columns filtro)
               then bind_err (series filtro col_nps) (\<lambda>n.
                    bind_err (mean n) (\<lambda>m. Inr (Some m)))
               else Inr None) (\<lambda>m3.
     Inr (length (rows filtro), m1, m2, m3))))))"

section \<open>Channels (lines 118 to 144)\<close>

text \<open>
  \<^verbatim>\<open>groupby\<close> with its defaults \<^verbatim>\<open>dropna=True\<close> and \<^verbatim>\<open>sort=True\<close>: the groups are the distinct
  values of the column other than NaN, in the ascending order of \<open>chave\<close> (numbers before
  texts, texts byte by byte).
\<close>

definition chaves_grupo :: "val list \<Rightarrow> val list" where
  "chaves_grupo ks = sort_key chave (remdups (filter (\<lambda>k. k \<noteq> VNaN) ks))"

text \<open>\<^verbatim>\<open>"count"\<close> counts the cells of the group that are not missing.\<close>

definition count :: "val list \<Rightarrow> nat" where
  "count vs = length (filter (\<lambda>v. v \<noteq> VNaN) vs)"

definition resumo_grupo :: "dataframe \<Rightarrow> val \<Rightarrow> erro + row" where
  "resumo_grupo filtro k =
     (let g = filter (\<lambda>r. cell r col_canal = k) (rows filtro)
      in bind_err (mean (map (\<lambda>r. cell r col_taxa_conv) g)) (\<lambda>m.
         Inr (map_of [(col_canal, k), (col_taxa_media, m),
                      (col_qtd_parceiros, VNum (real (count (map (\<lambda>r. cell r col_nome) g))))])))"

text \<open>\<^verbatim>\<open>groupby(...).agg({...}).rename(columns={...})\<close> followed by \<^verbatim>\<open>reset_index()\<close>.\<close>

definition agrupar_canal :: "dataframe \<Rightarrow> erro + dataframe" where
  "agrupar_canal filtro =
     bind_err (series filtro col_canal) (\<lambda>canais.
     bind_err (series filtro col_taxa_conv) (\<lambda>_.
     bind_err (series filtro col_nome) (\<lambda>_.
     bind_err (sequence (map (resumo_grupo filtro) (chaves_grupo canais))) (\<lambda>gs.
     Inr \<lparr>columns = [col_canal, col_taxa_media, col_qtd_parceiros], rows = gs\<rparr>))))"

text \<open>\<^verbatim>\<open>canal_conv.iloc[0]\<close> raises \<^verbatim>\<open>IndexError\<close> on a frame without rows.\<close>

definition iloc0 :: "dataframe \<Rightarrow> erro + row" where
  "iloc0 df = (case rows df of [] \<Rightarrow> Inl IndexError | r # _ \<Rightarrow> Inr r)"

text \<open>
  The section gives \<open>canal_conv\<close> and \<open>melhor_canal\<close>, or nothing (a warning is shown)
  when the frame has no channel column.
\<close>

definition secao_canais :: "argsort \<Rightarrow> dataframe \<Rightarrow> erro + (dataframe \<times> row) option" where
  "secao_canais a filtro =
     (if col_canal \<in> set (columns filtro)
      then bind_err (agrupar_canal filtro) (\<lambda>g.
           bind_err (sort_values a g col_taxa_media False) (\<lambda>canal_conv.
           bind_err (iloc0 canal_conv) (\<lambda>melhor_canal.
           Inr (Some (canal_conv, melhor_canal)))))
      else Inr None)"

section \<open>Churn risk (lines 156 to 191)\<close>

text \<open>
  A comparison of a numeric cell with a number: false on a missing value, \<^verbatim>\<open>TypeError\<close>
  on a text or a timestamp.
\<close>

definition lt_scalar :: "val \<Rightarrow> real \<Rightarrow> erro + bool" where
  "lt_scalar v c =
     (case v of
        VNaN \<Rightarrow> Inr False
      | VNum x \<Rightarrow> Inr (x < c)
      | VPInf \<Rightarrow> Inr False
      | VNInf \<Rightarrow> Inr True
      | VBool b \<Rightarrow> Inr ((if b then 1 else 0) < c)
      | _ \<Rightarrow> Inl TypeError)"

definition gt_scalar :: "val \<Rightarrow> real \<Rightarrow> erro + bool" where
  "gt_scalar v c =
     (case v of
        VNaN \<Rightarrow> Inr False
      | VNum x \<Rightarrow> Inr (c < x)
      | VPInf \<Rightarrow> Inr True
      | VNInf \<Rightarrow> Inr False
      | VBool b \<Rightarrow> Inr (c < (if b then 1 else 0))
      | _ \<Rightarrow> Inl TypeError)"

definition ou :: "bool list \<Rightarrow> bool list \<Rightarrow> bool list" where
  "ou xs ys = map (\<lambda>(x, y). x \<or> y) (zip xs ys)"

text \<open>The right-hand side of line 157, the four comparisons in the order Python evaluates them.\<close>

definition mascara_risco :: "dataframe \<Rightarrow> erro + bool list" where
  "mascara_risco filtro =
     bind_err (series filtro col_status) (\<lambda>st.
     bind_err (series filtro col_nps) (\<lambda>nps.
     bind_err (sequence (map (\<lambda>v. lt_scalar v 30) nps)) (\<lambda>m2.
     bind_err (series filtro col_dias) (\<lambda>dias.
     bind_err (sequence (map (\<lambda>v. gt_scalar v 60) dias)) (\<lambda>m3.
     bind_err (series filtro col_taxa_conv) (\<lambda>tx.
     bind_err (sequence (map (\<lambda>v. lt_scalar v (2 / 10)) tx)) (\<lambda>m4.
     Inr (ou (ou (ou (map (\<lambda>v. v = VStr ''Inativo'') st) m2) m3) m4))))))))"

definition colunas_risco :: "string list" where
  "colunas_risco = [col_status, col_nps, col_dias, col_taxa_conv]"

text \<open>
  The section gives the frame \<open>filtro\<close> with its new column and the frame \<open>risco_churn\<close>
  (the flagged rows, by descending days without contact), or reports \<open>DadosIncompletos\<close>.
  These are lines 156 to 164 and 191. The chart and the table of lines 166 to 189 only
  display \<open>risco_churn\<close> when it has rows; they read the columns of the name, the city and
  the number of referrals as well, raise when one is absent, and are not modelled.
\<close>

definition secao_risco :: "argsort \<Rightarrow> dataframe \<Rightarrow> erro + dataframe \<times> dataframe" where
  "secao_risco a filtro =
     (if \<forall>c \<in> set colunas_risco. c \<in> set (columns filtro)
      then bind_err (mascara_risco filtro) (\<lambda>m.
           let filtro1 = set_column filtro col_risco (map VBool m) in
           bind_err (sort_values a
                       (filtro1\<lparr>rows := filter (\<lambda>r. cell r col_risco = VBool True) (rows filtro1)\<rparr>)
                       col_dias False) (\<lambda>risco_churn.
           Inr (filtro1, risco_churn)))
      else Inl DadosIncompletos)"

section \<open>Ideal profile (lines 199 to 216)\<close>

text \<open>
  The dict \<open>perfil_ideal\<close>, with its numbers before formatting and \<open>None\<close> for
  \<^verbatim>\<open>"N/D"\<close>. \<^verbatim>\<open>Series.quantile(0.75)\<close> is the parameter \<open>q75\<close>. \<open>melhor_canal\<close> is the
  variable assigned at line 140, \<open>None\<close> while it is unbound.
\<close>

record perfil =
  p_taxa :: val
  p_nps :: "val option"
  p_frequencia :: string
  p_canal :: "val option"

definition perfil_ideal ::
  "(val list \<Rightarrow> val) \<Rightarrow> dataframe \<Rightarrow> row option \<Rightarrow> erro + perfil option" where
  "perfil_ideal q75 filtro melhor_canal =
     (if \<not> empty_df filtro
      then bind_err (series filtro col_taxa_conv) (\<lambda>tx.
           bind_err (if col_nps \<in> set (columns filtro)
                     then bind_err (series filtro col_nps) (\<lambda>n. Inr (Some (q75 n)))
                     else Inr None) (\<lambda>nps.
           bind_err (if col_canal \<in> set (columns filtro)
                     then (case melhor_canal of
                             None \<Rightarrow> Inl NameError
                           | Some m \<Rightarrow> Inr (Some (cell m col_canal)))
                     else Inr None) (\<lambda>canal.
           Inr (Some \<lparr>p_taxa = q75 tx, p_nps = nps,
                      p_frequencia = ''Ativos nos '' @ [CHR 0xC3, CHR 0xBA] @ ''ltimos 30 dias'', p_canal = canal\<rparr>))))
      else Inr None)"

section \<open>The script from line 84 on\<close>

text \<open>
  The sections in the order of the script, on the filtered frame. An exception ends the
  script; the report \<open>DadosIncompletos\<close> does not, and leaves \<open>filtro\<close> as it was.
\<close>

definition risco_ou_aviso ::
  "argsort \<Rightarrow> dataframe \<Rightarrow> erro + dataframe \<times> dataframe option" where
  "risco_ou_aviso a filtro =
     (case secao_risco a filtro of
        Inl e \<Rightarrow> (if e = DadosIncompletos then Inr (filtro, None) else Inl e)
      | Inr (filtro1, risco_churn) \<Rightarrow> Inr (filtro1, Some risco_churn))"

definition painel ::
  "argsort \<Rightarrow> (val list \<Rightarrow> val) \<Rightarrow> dataframe \<Rightarrow>
   erro + (nat \<times> val \<times> val \<times> val option) \<times> dataframe \<times> (dataframe \<times> row) option
          \<times> dataframe option \<times> perfil option" where
  "painel a q75 filtro =
     bind_err (metricas filtro) (\<lambda>ms.
     bind_err (top_parceiros a filtro) (\<lambda>top.
     bind_err (secao_canais a filtro) (\<lambda>canais.
     bind_err (risco_ou_aviso a filtro) (\<lambda>(filtro1, risco).
     bind_err (perfil_ideal q75 filtro1 (map_option snd canais)) (\<lambda>p.
     Inr (ms, top, canais, risco, p))))))"

section \<open>The frames as objects (lines 70 to 73 and 157)\<close>

text \<open>
  \<open>df\<close> and \<open>filtro\<close> are variables that refer to frame objects, and line 157 writes into
  the object \<open>filtro\<close> refers to. The store maps an object identity to the frame it holds;
  \<^verbatim>\<open>df.copy()\<close> and the selection \<^verbatim>\<open>filtro[mask]\<close> each make a new object.
\<close>

record estado =
  objs :: "nat \<Rightarrow> dataframe option"
  prox :: nat
  v_df :: nat
  v_filtro :: nat

definition novo :: "estado \<Rightarrow> dataframe \<Rightarrow> estado" where
  "novo s d = s\<lparr>objs := (objs s)(prox s \<mapsto> d), prox := Suc (prox s), v_filtro := prox s\<rparr>"

text \<open>Line 30: the frame that \<open>load_data\<close> returned is bound to \<open>df\<close>.\<close>

definition inicio :: "dataframe \<Rightarrow> estado" where
  "inicio d = \<lparr>objs = (\<lambda>_. None)(0 \<mapsto> d), prox = 1, v_df = 0, v_filtro = 0\<rparr>"

text \<open>Line 70: \<^verbatim>\<open>filtro = df.copy()\<close>.\<close>

definition copiar :: "estado \<Rightarrow> estado" where
  "copiar s = (case objs s (v_df s) of None \<Rightarrow> s | Some d \<Rightarrow> novo s d)"

text \<open>Lines 72 and 73: one turn of the loop.\<close>

definition passo_filtro :: "estado \<Rightarrow> string \<times> val list \<Rightarrow> estado" where
  "passo_filtro s cv =
     (case objs s (v_filtro s) of
        None \<Rightarrow> s
      | Some f \<Rightarrow> (if aplica f cv then novo s (selecionar f cv) else s))"

definition laco_filtros :: "estado \<Rightarrow> filtros \<Rightarrow> estado" where
  "laco_filtros s fs = foldl passo_filtro s fs"

text \<open>Lines 156 to 164: the assignment of line 157 changes the object in place.\<close>

definition risco_no_estado :: "argsort \<Rightarrow> estado \<Rightarrow> erro + estado \<times> dataframe" where
  "risco_no_estado a s =
     (case objs s (v_filtro s) of
        None \<Rightarrow> Inl NameError
      | Some f \<Rightarrow>
          bind_err (secao_risco a f) (\<lambda>(f1, risco_churn).
          Inr (s\<lparr>objs := (objs s)(v_filtro s \<mapsto> f1)\<rparr>, risco_churn)))"

section \<open>Example inputs\<close>

definition linha :: "(string \<times> val) list \<Rightarrow> row" where
  "linha kvs = map_of kvs"

definition colunas_base :: "string list" where
  "colunas_base =
     [col_nome, col_cidade, col_canal, col_tipo, col_status, col_indicacoes,
      col_qualificadas, col_fechadas, col_data, col_nps]"

definition parceiro ::
  "val \<Rightarrow> val \<Rightarrow> val \<Rightarrow> val \<Rightarrow> val \<Rightarrow> val \<Rightarrow> val \<Rightarrow> val \<Rightarrow> row" where
  "parceiro nome canal status ind qual fech data nps =
     linha [(col_nome, nome), (col_cidade, VStr ''Recife''), (col_canal, canal),
            (col_tipo, VStr ''Corretor''), (col_status, status), (col_indicacoes, ind),
            (col_qualificadas, qual), (col_fechadas, fech), (col_data, data), (col_nps, nps)]"

text \<open>One partner with no referral received and five closed.\<close>

definition base_zero :: dataframe where
  "base_zero =
     \<lparr>columns = colunas_base,
      rows = [parceiro (VStr ''A'') (VStr ''Site'') (VStr ''Ativo'')
                (VNum 0) (VNum 0) (VNum 5) VNaN (VNum 80)]\<rparr>"

text \<open>A converter that reads one text as a date and rejects every other scalar.\<close>

definition conv_exemplo :: "val \<Rightarrow> int option" where
  "conv_exemplo v = (if v = VStr ''2024-01-01'' then Some 1704067200000000000 else None)"

text \<open>Two partners, the second with a last contact date that cannot be read.\<close>

definition parceiro_a :: row where
  "parceiro_a = parceiro (VStr ''A'') (VStr ''Site'') (VStr ''Ativo'')
                  (VNum 10) (VNum 6) (VNum 5) (VStr ''2024-01-01'') (VNum 80)"

definition parceiro_b :: row where
  "parceiro_b = parceiro (VStr ''B'') (VStr ''Site'') (VStr ''Ativo'')
                  (VNum 4) (VNum 2) (VNum 1) (VStr ''ontem'') (VNum 70)"

definition base_data_ruim :: dataframe where
  "base_data_ruim = \<lparr>columns = colunas_base, rows = [parceiro_a, parceiro_b]\<rparr>"

text \<open>
  Frames as \<open>load_data\<close> returns them: the columns of the sheet, then the three derived
  ones; the date column holds what \<^verbatim>\<open>to_datetime\<close> made of it.
\<close>

definition colunas_carregadas :: "string list" where
  "colunas_carregadas = colunas_base @ [col_taxa_conv, col_taxa_qual, col_dias]"

definition derivado :: "row \<Rightarrow> val \<Rightarrow> val \<Rightarrow> val \<Rightarrow> val \<Rightarrow> row" where
  "derivado r tc tq dt d =
     r(col_taxa_conv \<mapsto> tc, col_taxa_qual \<mapsto> tq, col_data \<mapsto> dt, col_dias \<mapsto> d)"

definition nomes :: "dataframe \<Rightarrow> val list" where
  "nomes df = map (\<lambda>r. cell r col_nome) (rows df)"

text \<open>Two partners with the same conversion rate, one half.\<close>

definition empate_a :: row where
  "empate_a = parceiro (VStr ''A'') (VStr ''Site'') (VStr ''Ativo'')
                (VNum 10) (VNum 6) (VNum 5) VNaN (VNum 80)"

definition empate_b :: row where
  "empate_b = parceiro (VStr ''B'') (VStr ''Feira'') (VStr ''Ativo'')
                (VNum 4) (VNum 3) (VNum 2) VNaN (VNum 70)"

definition base_empate :: dataframe where
  "base_empate = \<lparr>columns = colunas_base, rows = [empate_a, empate_b]\<rparr>"

definition filtro_empate :: dataframe where
  "filtro_empate =
     \<lparr>columns = colunas_carregadas,
      rows = [derivado empate_a (VNum (1 / 2)) (VNum (3 / 5)) VNaN VNaN,
              derivado empate_b (VNum (1 / 2)) (VNum (3 / 4)) VNaN VNaN]\<rparr>"

text \<open>
  Eighteen partners, each with four referrals received and one to four of them closed,
  so that the conversion rates are 1/4, 1/2, 3/4 and 1 with many ties.
\<close>

definition parceiro_n :: "string \<Rightarrow> real \<Rightarrow> row" where
  "parceiro_n nome fech =
     parceiro (VStr nome) (VStr ''Site'') (VStr ''Ativo'') (VNum 4) (VNum 4) (VNum fech) VNaN
       (VNum 80)"

definition carregado_n :: "string \<Rightarrow> real \<Rightarrow> row" where
  "carregado_n nome fech = derivado (parceiro_n nome fech) (VNum (fech / 4)) (VNum 1) VNaN VNaN"

definition lista_18 :: "(string \<times> real) list" where
  "lista_18 =
     [(''A'', 1), (''B'', 2), (''C'', 3), (''D'', 3), (''E'', 2), (''F'', 2),
      (''G'', 4), (''H'', 3), (''I'', 3), (''J'', 1), (''K'', 2), (''L'', 4),
      (''M'', 3), (''N'', 3), (''O'', 4), (''P'', 3), (''Q'', 3), (''R'', 4)]"

definition base_18 :: dataframe where
  "base_18 = \<lparr>columns = colunas_base, rows = map (\<lambda>(n, k). parceiro_n n k) lista_18\<rparr>"

definition filtro_18 :: dataframe where
  "filtro_18 =
     \<lparr>columns = colunas_carregadas, rows = map (\<lambda>(n, k). carregado_n n k) lista_18\<rparr>"

definition taxas :: "dataframe \<Rightarrow> val list" where
  "taxas df = map (\<lambda>r. cell r col_taxa_conv) (rows df)"

text \<open>
  One inactive partner with a conversion rate of 0.9, a satisfaction score of 90 and one
  day since the last contact.
\<close>

definition inativo_a :: row where
  "inativo_a = parceiro (VStr ''A'') (VStr ''Site'') (VStr ''Inativo'')
                 (VNum 10) (VNum 10) (VNum 9) (VStr ''2024-01-01'') (VNum 90)"

definition base_inativo :: dataframe where
  "base_inativo = \<lparr>columns = colunas_base, rows = [inativo_a]\<rparr>"

definition filtro_inativo :: dataframe where
  "filtro_inativo =
     \<lparr>columns = colunas_carregadas,
      rows = [derivado inativo_a (VNum (9 / 10)) (VNum 1) (VTime 1704067200000000000) (VNum 1)]\<rparr>"

text \<open>The frame of the two tied partners without its satisfaction column.\<close>

definition base_sem_nps :: dataframe where
  "base_sem_nps =
     \<lparr>columns = removeAll col_nps colunas_base,
      rows = [empate_a(col_nps := None), empate_b(col_nps := None)]\<rparr>"

definition filtro_sem_nps :: dataframe where
  "filtro_sem_nps =
     \<lparr>columns = removeAll col_nps colunas_carregadas,
      rows = [derivado (empate_a(col_nps := None)) (VNum (1 / 2)) (VNum (3 / 5)) VNaN VNaN,
              derivado (empate_b(col_nps := None)) (VNum (1 / 2)) (VNum (3 / 4)) VNaN VNaN]\<rparr>"

text \<open>Readings of the frame \<open>canal_conv\<close> and of the filtered frame.\<close>

definition num_of :: "val \<Rightarrow> real" where
  "num_of v = (case v of VNum x \<Rightarrow> x | _ \<Rightarrow> 0)"

definition quantidades :: "dataframe \<Rightarrow> val list" where
  "quantidades df = map (\<lambda>g. cell g col_qtd_parceiros) (rows df)"

definition canais_de :: "dataframe \<Rightarrow> val list" where
  "canais_de df = map (\<lambda>g. cell g col_canal) (rows df)"

definition com_canal :: "dataframe \<Rightarrow> nat" where
  "com_canal df = length (filter (\<lambda>r. cell r col_canal \<noteq> VNaN) (rows df))"

text \<open>Two partners of the channel \<open>Site\<close>, the second without a name.\<close>

definition sem_nome :: row where
  "sem_nome = parceiro VNaN (VStr ''Site'') (VStr ''Ativo'')
                (VNum 4) (VNum 3) (VNum 2) VNaN (VNum 70)"

definition base_sem_nome :: dataframe where
  "base_sem_nome = \<lparr>columns = colunas_base, rows = [empate_a, sem_nome]\<rparr>"

definition filtro_sem_nome :: dataframe where
  "filtro_sem_nome =
     \<lparr>columns = colunas_carregadas,
      rows = [derivado empate_a (VNum (1 / 2)) (VNum (3 / 5)) VNaN VNaN,
              derivado sem_nome (VNum (1 / 2)) (VNum (3 / 4)) VNaN VNaN]\<rparr>"

text \<open>
  Three partners of two channels: A and C of \<open>Site\<close> with rates 9/10 and 1/2, B of
  \<open>Feira\<close> with rate 3/4. The best single partner is of \<open>Site\<close>, the best mean is the
  one of \<open>Feira\<close>.
\<close>

definition tres_a :: row where
  "tres_a = parceiro (VStr ''A'') (VStr ''Site'') (VStr ''Ativo'')
              (VNum 10) (VNum 10) (VNum 9) VNaN (VNum 90)"

definition tres_b :: row where
  "tres_b = parceiro (VStr ''B'') (VStr ''Feira'') (VStr ''Ativo'')
              (VNum 4) (VNum 3) (VNum 3) VNaN (VNum 70)"

definition tres_c :: row where
  "tres_c = parceiro (VStr ''C'') (VStr ''Site'') (VStr ''Ativo'')
              (VNum 10) (VNum 6) (VNum 5) VNaN (VNum 80)"

definition base_tres :: dataframe where
  "base_tres = \<lparr>columns = colunas_base, rows = [tres_a, tres_b, tres_c]\<rparr>"

definition filtro_tres :: dataframe where
  "filtro_tres =
     \<lparr>columns = colunas_carregadas,
      rows = [derivado tres_a (VNum (9 / 10)) (VNum 1) VNaN VNaN,
              derivado tres_b (VNum (3 / 4)) (VNum (3 / 4)) VNaN VNaN,
              derivado tres_c (VNum (1 / 2)) (VNum (3 / 5)) VNaN VNaN]\<rparr>"

text \<open>A stand-in for \<^verbatim>\<open>Series.quantile(0.75)\<close> in the examples: the last value.\<close>

definition q75_exemplo :: "val list \<Rightarrow> val" where
  "q75_exemplo vs = (case rev vs of [] \<Rightarrow> VNaN | v # _ \<Rightarrow> v)"

text \<open>A row of \<open>canal_conv\<close>, and the frame expected for the example above.\<close>

definition grupo :: "val \<Rightarrow> val \<Rightarrow> val \<Rightarrow> row" where
  "grupo k m n = map_of [(col_canal, k), (col_taxa_media, m), (col_qtd_parceiros, n)]"

definition canal_conv_sem_nome :: dataframe where
  "canal_conv_sem_nome =
     \<lparr>columns = [col_canal, col_taxa_media, col_qtd_parceiros],
      rows = [grupo (VStr ''Site'') (VNum (1 / 2)) (VNum 1)]\<rparr>"

text \<open>The frame \<open>canal_conv\<close> expected for the three partners.\<close>

definition canal_conv_tres :: dataframe where
  "canal_conv_tres =
     \<lparr>columns = [col_canal, col_taxa_media, col_qtd_parceiros],
      rows = [grupo (VStr ''Feira'') (VNum (3 / 4)) (VNum 1),
              grupo (VStr ''Site'') (VNum (7 / 10)) (VNum 2)]\<rparr>"

text \<open>The column of the means of a channel summary.\<close>

definition medias :: "dataframe \<Rightarrow> val list" where
  "medias df = map (\<lambda>g. cell g col_taxa_media) (rows df)"

section \<open>Basic facts\<close>

lemmas col_defs =
  col_nome_def col_cidade_def col_canal_def col_tipo_def col_status_def col_indicacoes_def
  col_fechadas_def col_qualificadas_def col_data_def col_nps_def col_taxa_conv_def
  col_taxa_qual_def col_dias_def col_risco_def col_taxa_media_def col_qtd_parceiros_def

text \<open>The sixteen column names are pairwise different.\<close>

lemma col_neq [simp]:
  "col_nome \<noteq> col_cidade" "col_nome \<noteq> col_canal" "col_nome \<noteq> col_tipo" "col_nome \<noteq> col_status" "col_nome \<noteq> col_indicacoes"
  "col_nome \<noteq> col_fechadas" "col_nome \<noteq> col_qualificadas" "col_nome \<noteq> col_data" "col_nome \<noteq> col_nps" "col_nome \<noteq> col_taxa_conv"
  "col_nome \<noteq> col_taxa_qual" "col_nome \<noteq> col_dias" "col_nome \<noteq> col_risco" "col_nome \<noteq> col_taxa_media" "col_nome \<noteq> col_qtd_parceiros"
  "col_cidade \<noteq> col_nome" "col_cidade \<noteq> col_canal" "col_cidade \<noteq> col_tipo" "col_cidade \<noteq> col_status" "col_cidade \<noteq> col_indicacoes"
  "col_cidade \<noteq> col_fechadas" "col_cidade \<noteq> col_qualificadas" "col_cidade \<noteq> col_data" "col_cidade \<noteq> col_nps" "col_cidade \<noteq> col_taxa_conv"
  "col_cidade \<noteq> col_taxa_qual" "col_cidade \<noteq> col_dias" "col_cidade \<noteq> col_risco" "col_cidade \<noteq> col_taxa_media" "col_cidade \<noteq> col_qtd_parceiros"
  "col_canal \<noteq> col_nome" "col_canal \<noteq> col_cidade" "col_canal \<noteq> col_tipo" "col_canal \<noteq> col_status" "col_canal \<noteq> col_indicacoes"
  "col_canal \<noteq> col_fechadas" "col_canal \<noteq> col_qualificadas" "col_canal \<noteq> col_data" "col_canal \<noteq> col_nps" "col_canal \<noteq> col_taxa_conv"
  "col_canal \<noteq> col_taxa_qual" "col_canal \<noteq> col_dias" "col_canal \<noteq> col_risco" "col_canal \<noteq> col_taxa_media" "col_canal \<noteq> col_qtd_parceiros"
  "col_tipo \<noteq> col_nome" "col_tipo \<noteq> col_cidade" "col_tipo \<noteq> col_canal" "col_tipo \<noteq> col_status" "col_tipo \<noteq> col_indicacoes"
  "col_tipo \<noteq> col_fechadas" "col_tipo \<noteq> col_qualificadas" "col_tipo \<noteq> col_data" "col_tipo \<noteq> col_nps" "col_tipo \<noteq> col_taxa_conv"
  "col_tipo \<noteq> col_taxa_qual" "col_tipo \<noteq> col_dias" "col_tipo \<noteq> col_risco" "col_tipo \<noteq> col_taxa_media" "col_tipo \<noteq> col_qtd_parceiros"
  "col_status \<noteq> col_nome" "col_status \<noteq> col_cidade" "col_status \<noteq> col_canal" "col_status \<noteq> col_tipo" "col_status \<noteq> col_indicacoes"
  "col_status \<noteq> col_fechadas" "col_status \<noteq> col_qualificadas" "col_status \<noteq> col_data" "col_status \<noteq> col_nps" "col_status \<noteq> col_taxa_conv"
  "col_status \<noteq> col_taxa_qual" "col_status \<noteq> col_dias" "col_status \<noteq> col_risco" "col_status \<noteq> col_taxa_media" "col_status \<noteq> col_qtd_parceiros"
  "col_indicacoes \<noteq> col_nome" "col_indicacoes \<noteq> col_cidade" "col_indicacoes \<noteq> col_canal" "col_indicacoes \<noteq> col_tipo" "col_indicacoes \<noteq> col_status"
  "col_indicacoes \<noteq> col_fechadas" "col_indicacoes \<noteq> col_qualificadas" "col_indicacoes \<noteq> col_data" "col_indicacoes \<noteq> col_nps" "col_indicacoes \<noteq> col_taxa_conv"
  "col_indicacoes \<noteq> col_taxa_qual" "col_indicacoes \<noteq> col_dias" "col_indicacoes \<noteq> col_risco" "col_indicacoes \<noteq> col_taxa_media" "col_indicacoes \<noteq> col_qtd_parceiros"
  "col_fechadas \<noteq> col_nome" "col_fechadas \<noteq> col_cidade" "col_fechadas \<noteq> col_canal" "col_fechadas \<noteq> col_tipo" "col_fechadas \<noteq> col_status"
  "col_fechadas \<noteq> col_indicacoes" "col_fechadas \<noteq> col_qualificadas" "col_fechadas \<noteq> col_data" "col_fechadas \<noteq> col_nps" "col_fechadas \<noteq> col_taxa_conv"
  "col_fechadas \<noteq> col_taxa_qual" "col_fechadas \<noteq> col_dias" "col_fechadas \<noteq> col_risco" "col_fechadas \<noteq> col_taxa_media" "col_fechadas \<noteq> col_qtd_parceiros"
  "col_qualificadas \<noteq> col_nome" "col_qualificadas \<noteq> col_cidade" "col_qualificadas \<noteq> col_canal" "col_qualificadas \<noteq> col_tipo" "col_qualificadas \<noteq> col_status"
  "col_qualificadas \<noteq> col_indicacoes" "col_qualificadas \<noteq> col_fechadas" "col_qualificadas \<noteq> col_data" "col_qualificadas \<noteq> col_nps" "col_qualificadas \<noteq> col_taxa_conv"
  "col_qualificadas \<noteq> col_taxa_qual" "col_qualificadas \<noteq> col_dias" "col_qualificadas \<noteq> col_risco" "col_qualificadas \<noteq> col_taxa_media" "col_qualificadas \<noteq> col_qtd_parceiros"
  "col_data \<noteq> col_nome" "col_data \<noteq> col_cidade" "col_data \<noteq> col_canal" "col_data \<noteq> col_tipo" "col_data \<noteq> col_status"
  "col_data \<noteq> col_indicacoes" "col_data \<noteq> col_fechadas" "col_data \<noteq> col_qualificadas" "col_data \<noteq> col_nps" "col_data \<noteq> col_taxa_conv"
  "col_data \<noteq> col_taxa_qual" "col_data \<noteq> col_dias" "col_data \<noteq> col_risco" "col_data \<noteq> col_taxa_media" "col_data \<noteq> col_qtd_parceiros"
  "col_nps \<noteq> col_nome" "col_nps \<noteq> col_cidade" "col_nps \<noteq> col_canal" "col_nps \<noteq> col_tipo" "col_nps \<noteq> col_status"
  "col_nps \<noteq> col_indicacoes" "col_nps \<noteq> col_fechadas" "col_nps \<noteq> col_qualificadas" "col_nps \<noteq> col_data" "col_nps \<noteq> col_taxa_conv"
  "col_nps \<noteq> col_taxa_qual" "col_nps \<noteq> col_dias" "col_nps \<noteq> col_risco" "col_nps \<noteq> col_taxa_media" "col_nps \<noteq> col_qtd_parceiros"
  "col_taxa_conv \<noteq> col_nome" "col_taxa_conv \<noteq> col_cidade" "col_taxa_conv \<noteq> col_canal" "col_taxa_conv \<noteq> col_tipo" "col_taxa_conv \<noteq> col_status"
  "col_taxa_conv \<noteq> col_indicacoes" "col_taxa_conv \<noteq> col_fechadas" "col_taxa_conv \<noteq> col_qualificadas" "col_taxa_conv \<noteq> col_data" "col_taxa_conv \<noteq> col_nps"
  "col_taxa_conv \<noteq> col_taxa_qual" "col_taxa_conv \<noteq> col_dias" "col_taxa_conv \<noteq> col_risco" "col_taxa_conv \<noteq> col_taxa_media" "col_taxa_conv \<noteq> col_qtd_parceiros"
  "col_taxa_qual \<noteq> col_nome" "col_taxa_qual \<noteq> col_cidade" "col_taxa_qual \<noteq> col_canal" "col_taxa_qual \<noteq> col_tipo" "col_taxa_qual \<noteq> col_status"
  "col_taxa_qual \<noteq> col_indicacoes" "col_taxa_qual \<noteq> col_fechadas" "col_taxa_qual \<noteq> col_qualificadas" "col_taxa_qual \<noteq> col_data" "col_taxa_qual \<noteq> col_nps"
  "col_taxa_qual \<noteq> col_taxa_conv" "col_taxa_qual \<noteq> col_dias" "col_taxa_qual \<noteq> col_risco" "col_taxa_qual \<noteq> col_taxa_media" "col_taxa_qual \<noteq> col_qtd_parceiros"
  "col_dias \<noteq> col_nome" "col_dias \<noteq> col_cidade" "col_dias \<noteq> col_canal" "col_dias \<noteq> col_tipo" "col_dias \<noteq> col_status"
  "col_dias \<noteq> col_indicacoes" "col_dias \<noteq> col_fechadas" "col_dias \<noteq> col_qualificadas" "col_dias \<noteq> col_data" "col_dias \<noteq> col_nps"
  "col_dias \<noteq> col_taxa_conv" "col_dias \<noteq> col_taxa_qual" "col_dias \<noteq> col_risco" "col_dias \<noteq> col_taxa_media" "col_dias \<noteq> col_qtd_parceiros"
  "col_risco \<noteq> col_nome" "col_risco \<noteq> col_cidade" "col_risco \<noteq> col_canal" "col_risco \<noteq> col_tipo" "col_risco \<noteq> col_status"
  "col_risco \<noteq> col_indicacoes" "col_risco \<noteq> col_fechadas" "col_risco \<noteq> col_qualificadas" "col_risco \<noteq> col_data" "col_risco \<noteq> col_nps"
  "col_risco \<noteq> col_taxa_conv" "col_risco \<noteq> col_taxa_qual" "col_risco \<noteq> col_dias" "col_risco \<noteq> col_taxa_media" "col_risco \<noteq> col_qtd_parceiros"
  "col_taxa_media \<noteq> col_nome" "col_taxa_media \<noteq> col_cidade" "col_taxa_media \<noteq> col_canal" "col_taxa_media \<noteq> col_tipo" "col_taxa_media \<noteq> col_status"
  "col_taxa_media \<noteq> col_indicacoes" "col_taxa_media \<noteq> col_fechadas" "col_taxa_media \<noteq> col_qualificadas" "col_taxa_media \<noteq> col_data" "col_taxa_media \<noteq> col_nps"
  "col_taxa_media \<noteq> col_taxa_conv" "col_taxa_media \<noteq> col_taxa_qual" "col_taxa_media \<noteq> col_dias" "col_taxa_media \<noteq> col_risco" "col_taxa_media \<noteq> col_qtd_parceiros"
  "col_qtd_parceiros \<noteq> col_nome" "col_qtd_parceiros \<noteq> col_cidade" "col_qtd_parceiros \<noteq> col_canal" "col_qtd_parceiros \<noteq> col_tipo" "col_qtd_parceiros \<noteq> col_status"
  "col_qtd_parceiros \<noteq> col_indicacoes" "col_qtd_parceiros \<noteq> col_fechadas" "col_qtd_parceiros \<noteq> col_qualificadas" "col_qtd_parceiros \<noteq> col_data" "col_qtd_parceiros \<noteq> col_nps"
  "col_qtd_parceiros \<noteq> col_taxa_conv" "col_qtd_parceiros \<noteq> col_taxa_qual" "col_qtd_parceiros \<noteq> col_dias" "col_qtd_parceiros \<noteq> col_risco" "col_qtd_parceiros \<noteq> col_taxa_media"
  by (simp_all add: col_defs)

lemmas exemplo_defs = parceiro_def linha_def colunas_base_def parceiro_a_def parceiro_b_def

lemma sequence_length: "sequence ms = Inr xs \<Longrightarrow> length xs = length ms"
  by (induction ms arbitrary: xs) (auto split: sum.splits)

lemma sequence_Inl: "Inl e \<in> set ms \<Longrightarrow> \<exists>e'. sequence ms = Inl e'"
  by (induction ms) (auto split: sum.splits)

lemma bind_err_Inr: "bind_err m f = Inr y \<longleftrightarrow> (\<exists>x. m = Inr x \<and> f x = Inr y)"
  by (cases m) (simp_all add: bind_err_def)

lemma series_Inr:
  "series df c = Inr vs \<longleftrightarrow> c \<in> set (columns df) \<and> vs = map (\<lambda>r. cell r c) (rows df)"
  by (auto simp: series_def)

lemma cells_set_column:
  "c' \<noteq> c \<Longrightarrow> length vs = length (rows df) \<Longrightarrow>
   map (\<lambda>r. cell r c') (rows (set_column df c vs)) = map (\<lambda>r. cell r c') (rows df)"
  by (auto simp: set_column_def cell_def list_eq_iff_nth_eq)

lemma length_rows_set_column:
  "length vs = length (rows df) \<Longrightarrow> length (rows (set_column df c vs)) = length (rows df)"
  by (simp add: set_column_def)

lemma sequence_map_Inr:
  "sequence (map g xs) = Inr ys \<Longrightarrow>
   length ys = length xs \<and> (\<forall>i < length xs. g (xs ! i) = Inr (ys ! i))"
proof (induction xs arbitrary: ys)
  case Nil
  then show ?case by simp
next
  case (Cons x xs)
  then obtain y ys' where y: "g x = Inr y" and ys': "sequence (map g xs) = Inr ys'"
    and ys: "ys = y # ys'"
    by (auto split: sum.splits)
  from Cons.IH [OF ys'] y ys show ?case
    by (auto simp: nth_Cons split: nat.splits)
qed

lemma sequence_map_Inl:
  "sequence (map g xs) = Inl e \<Longrightarrow> \<exists>x \<in> set xs. g x = Inl e"
  by (induction xs) (auto split: sum.splits)

lemma sequence_map_total:
  "\<forall>x \<in> set xs. \<exists>y. g x = Inr y \<Longrightarrow> \<exists>ys. sequence (map g xs) = Inr ys"
  by (induction xs) (auto split: sum.splits)

lemma columns_set_column:
  "set (columns (set_column f c vs)) = insert c (set (columns f))"
  by (auto simp: set_column_def)

lemma nth_rows_set_column:
  "length vs = length (rows f) \<Longrightarrow> i < length (rows f) \<Longrightarrow>
   rows (set_column f c vs) ! i = (rows f ! i)(c \<mapsto> vs ! i)"
  by (simp add: set_column_def)

section \<open>Properties of load_data\<close>

lemma div_series_length:
  "div_series xs ys = Inr q \<Longrightarrow> length q = min (length xs) (length ys)"
  by (auto simp: div_series_def split: if_splits dest: sequence_length)

lemma div_series_bool:
  "div_series [VBool True, VBool False] [VBool True, VBool True] = Inl NotImplementedError"
  by (simp add: div_series_def)

lemma to_datetime_unparseable: "unparseable conv v \<Longrightarrow> to_datetime conv v = Inl ParseError"
  by (cases v) (auto simp: unparseable_def to_datetime_def)

lemma preprocessar_unparseable:
  assumes r: "r \<in> set (rows df)" and u: "unparseable conv (cell r col_data)"
  shows "preprocessar conv hoje df \<noteq> Inr df'"
proof
  assume "preprocessar conv hoje df = Inr df'"
  then obtain q q1 ts where
    q: "div_series (map (\<lambda>r. cell r col_fechadas) (rows df))
          (map (\<lambda>r. cell r col_indicacoes) (rows df)) = Inr q"
    and q1: "div_series
          (map (\<lambda>r. cell r col_qualificadas) (rows (set_column df col_taxa_conv (map fillna0 q))))
          (map (\<lambda>r. cell r col_indicacoes) (rows (set_column df col_taxa_conv (map fillna0 q))))
        = Inr q1"
    and ts: "to_datetime_series conv (map (\<lambda>r. cell r col_data)
          (rows (set_column (set_column df col_taxa_conv (map fillna0 q))
                   col_taxa_qual (map fillna0 q1)))) = Inr ts"
    unfolding preprocessar_def Let_def bind_err_Inr series_Inr by blast
  have lq: "length q = length (rows df)"
    using div_series_length [OF q] by simp
  let ?df1 = "set_column df col_taxa_conv (map fillna0 q)"
  have lq1: "length q1 = length (rows ?df1)"
    using div_series_length [OF q1] by simp
  have "map (\<lambda>r. cell r col_data) (rows (set_column ?df1 col_taxa_qual (map fillna0 q1)))
      = map (\<lambda>r. cell r col_data) (rows ?df1)"
    using lq1 by (simp add: cells_set_column)
  also have "\<dots> = map (\<lambda>r. cell r col_data) (rows df)"
    using lq by (simp add: cells_set_column)
  finally have "sequence (map (to_datetime conv) (map (\<lambda>r. cell r col_data) (rows df))) = Inr ts"
    using ts by (simp add: to_datetime_series_def)
  moreover have
    "Inl ParseError \<in> set (map (to_datetime conv) (map (\<lambda>r. cell r col_data) (rows df)))"
    using r to_datetime_unparseable [OF u] by force
  ultimately show False
    using sequence_Inl by fastforce
qed

lemma div_series_nth:
  assumes "div_series xs ys = Inr q" and "length xs = length ys" and "i < length xs"
  shows "truediv (xs ! i) (ys ! i) = Inr (q ! i)"
proof -
  have "sequence (map (\<lambda>(x, y). truediv x y) (zip xs ys)) = Inr q"
    using assms(1) by (simp add: div_series_def split: if_splits)
  from sequence_map_Inr [OF this] assms(2,3) show ?thesis
    by auto
qed

lemma cell_set_column_other:
  "c' \<noteq> c \<Longrightarrow> length vs = length (rows df) \<Longrightarrow> i < length (rows df) \<Longrightarrow>
   cell (rows (set_column df c vs) ! i) c' = cell (rows df ! i) c'"
  by (simp add: nth_rows_set_column cell_def)

lemma cell_set_column_same:
  "length vs = length (rows df) \<Longrightarrow> i < length (rows df) \<Longrightarrow>
   cell (rows (set_column df c vs) ! i) c = vs ! i"
  by (simp add: nth_rows_set_column cell_def)

text \<open>
  What a successful run of the body gives each record: the two rates are the quotients
  after \<^verbatim>\<open>fillna(0)\<close>, the date is what \<^verbatim>\<open>to_datetime\<close> made of the cell, and the days
  are counted from it.
\<close>

lemma preprocessar_Inr:
  assumes ok: "preprocessar conv hoje df = Inr df'" and i: "i < length (rows df)"
  shows "length (rows df') = length (rows df) \<and>
    (\<exists>q. truediv (cell (rows df ! i) col_fechadas) (cell (rows df ! i) col_indicacoes) = Inr q \<and>
         cell (rows df' ! i) col_taxa_conv = fillna0 q) \<and>
    (\<exists>q. truediv (cell (rows df ! i) col_qualificadas) (cell (rows df ! i) col_indicacoes) = Inr q \<and>
         cell (rows df' ! i) col_taxa_qual = fillna0 q) \<and>
    (\<exists>t. to_datetime conv (cell (rows df ! i) col_data) = Inr t \<and>
         cell (rows df' ! i) col_data = t \<and>
         cell (rows df' ! i) col_dias = dias_desde hoje t)"
proof -
  define n where "n = length (rows df)"
  from ok obtain q q1 ts where
    q: "div_series (map (\<lambda>r. cell r col_fechadas) (rows df))
          (map (\<lambda>r. cell r col_indicacoes) (rows df)) = Inr q"
    and q1: "div_series
          (map (\<lambda>r. cell r col_qualificadas) (rows (set_column df col_taxa_conv (map fillna0 q))))
          (map (\<lambda>r. cell r col_indicacoes) (rows (set_column df col_taxa_conv (map fillna0 q))))
        = Inr q1"
    and ts: "to_datetime_series conv (map (\<lambda>r. cell r col_data)
          (rows (set_column (set_column df col_taxa_conv (map fillna0 q))
                   col_taxa_qual (map fillna0 q1)))) = Inr ts"
    and df': "df' = set_column (set_column (set_column (set_column df col_taxa_conv (map fillna0 q))
                   col_taxa_qual (map fillna0 q1)) col_data ts) col_dias
                (map (dias_desde hoje) (map (\<lambda>r. cell r col_data)
                   (rows (set_column (set_column (set_column df col_taxa_conv (map fillna0 q))
                   col_taxa_qual (map fillna0 q1)) col_data ts))))"
    unfolding preprocessar_def Let_def bind_err_Inr series_Inr by blast
  define d1 where "d1 = set_column df col_taxa_conv (map fillna0 q)"
  define d2 where "d2 = set_column d1 col_taxa_qual (map fillna0 q1)"
  define d3 where "d3 = set_column d2 col_data ts"
  have lq: "length q = n"
    using div_series_length [OF q] by (simp add: n_def)
  have l1: "length (rows d1) = n"
    using lq by (simp add: d1_def length_rows_set_column n_def)
  have lq1: "length q1 = n"
    using div_series_length [OF q1] l1 by (simp add: d1_def)
  have l2: "length (rows d2) = n"
    using lq1 l1 by (simp add: d2_def length_rows_set_column)
  have c2: "map (\<lambda>r. cell r col_data) (rows d2) = map (\<lambda>r. cell r col_data) (rows df)"
    using lq lq1 l1 by (simp add: d2_def d1_def cells_set_column n_def)
  have c1: "map (\<lambda>r. cell r col_qualificadas) (rows d1) = map (\<lambda>r. cell r col_qualificadas) (rows df)"
    "map (\<lambda>r. cell r col_indicacoes) (rows d1) = map (\<lambda>r. cell r col_indicacoes) (rows df)"
    using lq by (simp_all add: d1_def cells_set_column n_def)
  have seq: "sequence (map (to_datetime conv) (map (\<lambda>r. cell r col_data) (rows df))) = Inr ts"
    using ts c2 [unfolded d2_def d1_def] by (simp only: to_datetime_series_def)
  note st = sequence_map_Inr [OF seq]
  have lts: "length ts = n"
    using st by (simp add: n_def)
  have l3: "length (rows d3) = n"
    using lts l2 by (simp add: d3_def length_rows_set_column)
  have df'': "df' = set_column d3 col_dias (map (dias_desde hoje) (map (\<lambda>r. cell r col_data) (rows d3)))"
    by (simp add: df' d3_def d2_def d1_def)
  have i': "i < n" using i by (simp add: n_def)
  have len: "length (rows df') = n"
    using l3 by (simp add: df'' length_rows_set_column)
  have data3: "cell (rows d3 ! i) col_data = ts ! i"
    using lts l2 i' by (simp add: d3_def cell_set_column_same)
  have A: "truediv (cell (rows df ! i) col_fechadas) (cell (rows df ! i) col_indicacoes) = Inr (q ! i)"
    using div_series_nth [OF q] i by simp
  have B: "truediv (cell (rows df ! i) col_qualificadas) (cell (rows df ! i) col_indicacoes) = Inr (q1 ! i)"
    using div_series_nth [of "map (\<lambda>r. cell r col_qualificadas) (rows df)"
        "map (\<lambda>r. cell r col_indicacoes) (rows df)" q1 i] q1 c1 i
    by (simp add: d1_def)
  have C: "to_datetime conv (cell (rows df ! i) col_data) = Inr (ts ! i)"
    using st i by simp
  have tc: "cell (rows df' ! i) col_taxa_conv = fillna0 (q ! i)"
    using i' lq lq1 lts l1 l2 l3
    by (simp add: df'' d3_def d2_def d1_def cell_set_column_other cell_set_column_same
        length_rows_set_column n_def)
  have tq: "cell (rows df' ! i) col_taxa_qual = fillna0 (q1 ! i)"
    using i' lq lq1 lts l1 l2 l3
    by (simp add: df'' d3_def d2_def cell_set_column_other cell_set_column_same
        length_rows_set_column)
  have dt: "cell (rows df' ! i) col_data = ts ! i"
    using i' l3 data3 by (simp add: df'' cell_set_column_other)
  have dd: "cell (rows df' ! i) col_dias = dias_desde hoje (ts ! i)"
    using i' l3 data3 by (simp add: df'' cell_set_column_same)
  show ?thesis
    using len A B C tc tq dt dd by (simp add: n_def)
qed

text \<open>
  The cases of a rate: 0 / 0 gives 0, a positive count over 0 gives the positive infinity,
  a non-zero denominator gives the quotient; a missing date gives missing days.
\<close>

lemma taxa_zero_sobre_zero:
  "truediv (VNum 0) (VNum 0) = Inr q \<Longrightarrow> fillna0 q = VNum 0"
  by (auto simp: truediv_def numeric_def as_float_def fillna0_def)

lemma taxa_positivo_sobre_zero:
  "0 < x \<Longrightarrow> truediv (VNum x) (VNum 0) = Inr q \<Longrightarrow> fillna0 q = VPInf"
  by (auto simp: truediv_def numeric_def as_float_def fillna0_def)

lemma taxa_denominador_positivo:
  "y \<noteq> 0 \<Longrightarrow> truediv (VNum x) (VNum y) = Inr q \<Longrightarrow> fillna0 q = VNum (x / y)"
  by (auto simp: truediv_def numeric_def as_float_def fillna0_def)

lemma data_nula_dias_nulos:
  "to_datetime conv VNaN = Inr t \<Longrightarrow> dias_desde hoje t = VNaN"
  by (auto simp: to_datetime_def dias_desde_def)

text \<open>
  Claim C1, at a partner with no referral received and five closed: \<open>load_data\<close> succeeds
  and gives this partner an infinite conversion rate. \<^verbatim>\<open>fillna(0)\<close> turns the NaN of 0 / 0
  into 0 (the qualification rate here), and leaves the infinity of 5 / 0 in place.
\<close>

theorem load_data_denominador_zero:
  "fst (load_data conv_exemplo 1704153600000000000 (Inr base_zero)) = None \<and>
   map (\<lambda>r. (cell r col_taxa_conv, cell r col_taxa_qual))
     (rows (snd (load_data conv_exemplo 1704153600000000000 (Inr base_zero))))
   = [(VPInf, VNum 0)]"
  by (simp add: load_data_def preprocessar_def bind_err_def series_def set_column_def
      base_zero_def exemplo_defs div_series_def truediv_def numeric_def as_float_def
      fillna0_def cell_def to_datetime_series_def to_datetime_def dias_desde_def Let_def)

text \<open>
  Claim C2 as stated fails: with two partners, the second with a date that cannot be read,
  \<open>load_data\<close> shows the error and returns the frame without rows and columns, so the
  first partner gets no derived field either.
\<close>

theorem load_data_data_ruim_aborta:
  "load_data conv_exemplo 1704153600000000000 (Inr base_data_ruim) = (Some ParseError, df_vazio)"
  by (simp add: load_data_def preprocessar_def bind_err_def series_def set_column_def
      base_data_ruim_def exemplo_defs div_series_def truediv_def numeric_def as_float_def
      fillna0_def cell_def to_datetime_series_def to_datetime_def dias_desde_def Let_def
      conv_exemplo_def)

text \<open>
  Claim C2, amended: whenever some record of the dataset has a last contact date that is
  present and cannot be converted, \<open>load_data\<close> gives up the whole batch: it shows an
  error and returns the empty frame.
\<close>

theorem load_data_data_ilegivel:
  assumes "r \<in> set (rows df)" and "unparseable conv (cell r col_data)"
  shows "\<exists>e. load_data conv hoje (Inr df) = (Some e, df_vazio)"
  using preprocessar_unparseable [OF assms, of hoje]
  by (cases "preprocessar conv hoje df") (auto simp: load_data_def bind_err_def)

theorem load_data_data_ilegivel_witness:
  "parceiro_b \<in> set (rows base_data_ruim) \<and>
   unparseable conv_exemplo (cell parceiro_b col_data) \<and>
   (\<exists>e. load_data conv_exemplo 1704153600000000000 (Inr base_data_ruim) = (Some e, df_vazio))"
proof -
  have h1: "parceiro_b \<in> set (rows base_data_ruim)"
    by (simp add: base_data_ruim_def)
  have h2: "unparseable conv_exemplo (cell parceiro_b col_data)"
    by (simp add: unparseable_def cell_def exemplo_defs conv_exemplo_def)
  show ?thesis
    using h1 h2 load_data_data_ilegivel [OF h1 h2, of 1704153600000000000] by simp
qed

lemma load_data_empate:
  "load_data conv_exemplo 1704153600000000000 (Inr base_empate) = (None, filtro_empate)"
  by (simp add: load_data_def preprocessar_def bind_err_def series_def set_column_def
      base_empate_def filtro_empate_def derivado_def colunas_carregadas_def empate_a_def
      empate_b_def exemplo_defs div_series_def truediv_def numeric_def as_float_def
      fillna0_def cell_def to_datetime_series_def to_datetime_def dias_desde_def Let_def)

lemma load_data_inativo:
  "load_data conv_exemplo 1704153600000000000 (Inr base_inativo) = (None, filtro_inativo)"
  by (simp add: load_data_def preprocessar_def bind_err_def series_def set_column_def
      base_inativo_def filtro_inativo_def derivado_def colunas_carregadas_def inativo_a_def
      exemplo_defs div_series_def truediv_def numeric_def as_float_def conv_exemplo_def
      fillna0_def cell_def to_datetime_series_def to_datetime_def dias_desde_def Let_def ns_por_dia_def)

lemma load_data_sem_nps:
  "load_data conv_exemplo 1704153600000000000 (Inr base_sem_nps) = (None, filtro_sem_nps)"
  by (simp add: load_data_def preprocessar_def bind_err_def series_def set_column_def
      base_sem_nps_def filtro_sem_nps_def derivado_def colunas_carregadas_def empate_a_def
      empate_b_def exemplo_defs div_series_def truediv_def numeric_def as_float_def
      fillna0_def cell_def to_datetime_series_def to_datetime_def dias_desde_def Let_def)

lemma load_data_sem_nome:
  "load_data conv_exemplo 1704153600000000000 (Inr base_sem_nome) = (None, filtro_sem_nome)"
  by (simp add: load_data_def preprocessar_def bind_err_def series_def set_column_def
      base_sem_nome_def filtro_sem_nome_def derivado_def colunas_carregadas_def empate_a_def
      sem_nome_def exemplo_defs div_series_def truediv_def numeric_def as_float_def
      fillna0_def cell_def to_datetime_series_def to_datetime_def dias_desde_def Let_def)

lemma load_data_tres:
  "load_data conv_exemplo 1704153600000000000 (Inr base_tres) = (None, filtro_tres)"
  by (simp add: load_data_def preprocessar_def bind_err_def series_def set_column_def
      base_tres_def filtro_tres_def derivado_def colunas_carregadas_def tres_a_def tres_b_def
      tres_c_def exemplo_defs div_series_def truediv_def numeric_def as_float_def
      fillna0_def cell_def to_datetime_series_def to_datetime_def dias_desde_def Let_def)

lemma cells_derivado [simp]:
  "cell (derivado r tc tq dt d) col_taxa_conv = tc"
  "cell (derivado r tc tq dt d) col_taxa_qual = tq"
  "cell (derivado r tc tq dt d) col_data = dt"
  "cell (derivado r tc tq dt d) col_dias = d"
  "cell (derivado r tc tq dt d) col_nome = cell r col_nome"
  "cell (derivado r tc tq dt d) col_canal = cell r col_canal"
  "cell (derivado r tc tq dt d) col_status = cell r col_status"
  "cell (derivado r tc tq dt d) col_nps = cell r col_nps"
  "cell (derivado r tc tq dt d) col_cidade = cell r col_cidade"
  by (simp_all add: derivado_def cell_def)

lemma cells_parceiro [simp]:
  "cell (parceiro nome canal status ind qual fech data nps) col_nome = nome"
  "cell (parceiro nome canal status ind qual fech data nps) col_canal = canal"
  "cell (parceiro nome canal status ind qual fech data nps) col_status = status"
  "cell (parceiro nome canal status ind qual fech data nps) col_nps = nps"
  "cell (parceiro nome canal status ind qual fech data nps) col_cidade = VStr ''Recife''"
  by (simp_all add: cell_def parceiro_def linha_def)

section \<open>Properties of the filters\<close>

lemma columns_filtrar: "columns (filtrar f cv) = columns f"
  by (simp add: filtrar_def selecionar_def)

lemma columns_aplicar_filtros: "columns (aplicar_filtros d fs) = columns d"
  unfolding aplicar_filtros_def
  by (induction fs arbitrary: d) (simp_all add: columns_filtrar)

lemma aplicar_filtros_eq:
  "aplicar_filtros d fs = d\<lparr>rows := filter (passa d fs) (rows d)\<rparr>"
  unfolding aplicar_filtros_def
proof (induction fs arbitrary: d)
  case Nil
  show ?case by (simp add: passa_def)
next
  case (Cons cv fs)
  have "foldl filtrar d (cv # fs) = foldl filtrar (filtrar d cv) fs" by simp
  also have "\<dots> = (filtrar d cv)\<lparr>rows := filter (passa (filtrar d cv) fs) (rows (filtrar d cv))\<rparr>"
    by (rule Cons.IH)
  also have "\<dots> = d\<lparr>rows := filter (passa d (cv # fs)) (rows d)\<rparr>"
    by (cases "aplica d cv")
       (auto simp: filtrar_def selecionar_def passa_def aplica_def conj_commute
             intro!: filter_cong)
  finally show ?case .
qed

text \<open>
  Claim C3 as stated fails: a selection that is the empty list for the present column
  \<open>Cidade\<close> keeps both records of the frame.
\<close>

theorem selecao_vazia_mostra_tudo:
  "rows (aplicar_filtros base_data_ruim [(col_cidade, [])]) = [parceiro_a, parceiro_b]"
  by (simp add: aplicar_filtros_def filtrar_def aplica_def base_data_ruim_def)

text \<open>
  Claim C3, amended: an entry of the filter dict whose selection is empty is skipped by
  the guard of line 72, so the result is the one of the dict without that entry. An
  empty selection and an omitted column are the same: no constraint.
\<close>

theorem selecao_vazia_ignorada:
  "aplicar_filtros d (fs @ (c, []) # fs') = aplicar_filtros d (fs @ fs')"
  by (simp add: aplicar_filtros_def filtrar_def aplica_def)

text \<open>
  Claim C8: applying the same filters to the filtered frame again changes nothing.
\<close>

theorem filtros_idempotente:
  "aplicar_filtros (aplicar_filtros d fs) fs = aplicar_filtros d fs"
proof -
  have "passa (d\<lparr>rows := filter (passa d fs) (rows d)\<rparr>) fs = passa d fs"
    by (simp add: passa_def aplica_def fun_eq_iff)
  then show ?thesis
    by (simp add: aplicar_filtros_eq)
qed

section \<open>Properties of sorting\<close>

lemma argsort_ok_estavel: "argsort_ok argsort_estavel"
  by (simp add: argsort_ok_def argsort_estavel_def)

lemma argsort_set:
  assumes "argsort_ok a" and "VNaN \<notin> set ks"
  shows "set (a ks) = {0..<length ks}"
proof -
  have "mset (a ks) = mset [0..<length ks]"
    using assms by (simp add: argsort_ok_def)
  then have "set (a ks) = set [0..<length ks]"
    by (rule mset_eq_setD)
  then show ?thesis by simp
qed

lemma mset_take_positions:
  assumes "argsort_ok a" and "VNaN \<notin> set (map f xs)"
  shows "mset (map (\<lambda>j. xs ! j) (a (map f xs))) = mset xs"
proof -
  have "mset (a (map f xs)) = mset [0..<length xs]"
    using assms by (simp add: argsort_ok_def)
  then have "mset (map (\<lambda>j. xs ! j) (a (map f xs))) = mset (map (\<lambda>j. xs ! j) [0..<length xs])"
    by (metis mset_map)
  then show ?thesis by (simp add: map_nth)
qed

lemma mset_filter_split:
  "mset (filter (\<lambda>x. \<not> P x) xs) + mset (filter P xs) = mset xs"
  by (induction xs) simp_all

lemma mset_nargsort:
  assumes "argsort_ok a"
  shows "mset (nargsort a items asc) = mset [0..<length items]"
proof -
  let ?nn = "filter (\<lambda>i. items ! i \<noteq> VNaN) [0..<length items]"
  let ?na = "filter (\<lambda>i. items ! i = VNaN) [0..<length items]"
  have part: "mset ?nn + mset ?na = mset [0..<length items]"
    using mset_filter_split [of "\<lambda>i. items ! i = VNaN" "[0..<length items]"] by simp
  have nn: "VNaN \<notin> set (map (\<lambda>i. items ! i) ?nn)"
    and rn: "VNaN \<notin> set (map (\<lambda>i. items ! i) (rev ?nn))"
    by auto
  have up: "mset (map (\<lambda>j. ?nn ! j) (a (map (\<lambda>i. items ! i) ?nn))) = mset ?nn"
    by (rule mset_take_positions [OF assms nn])
  have "rev (map (\<lambda>i. items ! i) ?nn) = map (\<lambda>i. items ! i) (rev ?nn)"
    by (simp add: rev_map)
  then have down: "mset (map (\<lambda>j. rev ?nn ! j) (a (rev (map (\<lambda>i. items ! i) ?nn)))) = mset ?nn"
    using mset_take_positions [OF assms rn] by simp
  show ?thesis
    using part up down by (simp add: nargsort_def Let_def)
qed

lemma sorted_nargsort_desc:
  assumes ok: "argsort_ok a"
  shows "sorted_wrt (\<lambda>i j. antes (items ! i) (items ! j)) (nargsort a items False)"
proof -
  define nn where "nn = filter (\<lambda>i. items ! i \<noteq> VNaN) [0..<length items]"
  define na where "na = filter (\<lambda>i. items ! i = VNaN) [0..<length items]"
  define R where "R = rev nn"
  define ks where "ks = rev (map (\<lambda>i. items ! i) nn)"
  define L where "L = map (\<lambda>j. R ! j) (a ks)"
  have res: "nargsort a items False = rev L @ na"
    by (simp add: nargsort_def Let_def nn_def na_def R_def ks_def L_def)
  have ks: "ks = map (\<lambda>i. items ! i) R"
    by (simp add: ks_def R_def rev_map)
  have nonan: "VNaN \<notin> set ks"
    by (auto simp: ks_def nn_def)
  have p: "set (a ks) = {0..<length R}"
    using argsort_set [OF ok nonan] by (simp add: ks)
  have key: "chave (items ! (R ! j)) = chave (ks ! j)" if "j \<in> set (a ks)" for j
    using that p by (simp add: ks)
  have inL: "items ! i \<noteq> VNaN" if "i \<in> set L" for i
  proof -
    from that obtain j where "j \<in> set (a ks)" and "i = R ! j"
      by (auto simp: L_def)
    then have "i \<in> set R" using p by simp
    then show ?thesis by (simp add: R_def nn_def)
  qed
  have "sorted (map (\<lambda>j. chave (ks ! j)) (a ks))"
    using ok nonan by (simp add: argsort_ok_def)
  then have "sorted (map (\<lambda>j. chave (items ! (R ! j))) (a ks))"
    using key by (simp cong: map_cong)
  then have "sorted_wrt (\<lambda>i j. chave (items ! i) \<le> chave (items ! j)) L"
    by (simp add: L_def sorted_wrt_map sorted_map)
  then have "sorted_wrt (\<lambda>i j. antes (items ! j) (items ! i)) L"
    by (rule sorted_wrt_mono_rel [rotated]) (simp add: antes_def inL)
  then have 1: "sorted_wrt (\<lambda>i j. antes (items ! i) (items ! j)) (rev L)"
    by (simp add: sorted_wrt_rev)
  have nan: "items ! j = VNaN" if "j \<in> set na" for j
    using that by (simp add: na_def)
  have 2: "sorted_wrt (\<lambda>i j. antes (items ! i) (items ! j)) na"
    by (rule sorted_wrt_mono_rel [of na "\<lambda>_ _. True"]) (simp_all add: antes_def nan)
  have 3: "\<forall>i \<in> set (rev L). \<forall>j \<in> set na. antes (items ! i) (items ! j)"
    by (simp add: antes_def nan)
  show ?thesis
    unfolding res sorted_wrt_append using 1 2 3 by blast
qed

lemma sort_values_desc:
  assumes ok: "argsort_ok a" and col: "by \<in> set (columns df)"
  shows "\<exists>s. sort_values a df by False = Inr (df\<lparr>rows := s\<rparr>) \<and> mset s = mset (rows df) \<and>
             sorted_wrt (\<lambda>r r'. antes (cell r by) (cell r' by)) s"
proof -
  define items where "items = map (\<lambda>r. cell r by) (rows df)"
  define ix where "ix = nargsort a items False"
  have m: "mset ix = mset [0..<length (rows df)]"
    using mset_nargsort [OF ok, of items False] by (simp add: ix_def items_def)
  then have "set ix = set [0..<length (rows df)]"
    by (rule mset_eq_setD)
  then have lt: "i < length (rows df)" if "i \<in> set ix" for i
    using that by simp
  have "mset (map (\<lambda>i. rows df ! i) ix) = mset (map (\<lambda>i. rows df ! i) [0..<length (rows df)])"
    using m by (metis mset_map)
  then have 1: "mset (map (\<lambda>i. rows df ! i) ix) = mset (rows df)"
    by (simp add: map_nth)
  have "sorted_wrt (\<lambda>i j. antes (items ! i) (items ! j)) ix"
    unfolding ix_def by (rule sorted_nargsort_desc [OF ok])
  then have "sorted_wrt (\<lambda>i j. antes (cell (rows df ! i) by) (cell (rows df ! j) by)) ix"
    by (rule sorted_wrt_mono_rel [rotated]) (simp add: items_def lt)
  then have 2: "sorted_wrt (\<lambda>r r'. antes (cell r by) (cell r' by)) (map (\<lambda>i. rows df ! i) ix)"
    by (simp add: sorted_wrt_map)
  have "sort_values a df by False = Inr (df\<lparr>rows := map (\<lambda>i. rows df ! i) ix\<rparr>)"
    using col by (simp add: sort_values_def ix_def items_def)
  then show ?thesis using 1 2 by blast
qed

text \<open>
  With the insertion sort from left to right, which is stable, the two tied partners keep
  their order, and with numpy's quicksort as well, which sorts so short a list by
  insertion: the order of equal keys is decided by the sorting routine alone.
\<close>

lemma top_parceiros_com_argsort_estavel:
  "map_sum id nomes (top_parceiros argsort_estavel filtro_empate) = Inr [VStr ''A'', VStr ''B'']"
  by (simp add: top_parceiros_def sort_values_def bind_err_def nargsort_def Let_def head_def
      nomes_def filtro_empate_def colunas_carregadas_def empate_a_def empate_b_def
      argsort_estavel_def upt_rec chave_def)

lemma top_parceiros_empate_numpy:
  "map_sum id nomes (top_parceiros argsort_numpy filtro_empate) = Inr [VStr ''A'', VStr ''B'']"
  by code_simp

lemma load_data_18:
  "load_data conv_exemplo 1704153600000000000 (Inr base_18) = (None, filtro_18)"
  by (simp add: load_data_def preprocessar_def bind_err_def series_def set_column_def
      base_18_def filtro_18_def lista_18_def parceiro_n_def carregado_n_def derivado_def
      colunas_carregadas_def exemplo_defs div_series_def truediv_def numeric_def as_float_def
      fillna0_def cell_def to_datetime_series_def to_datetime_def dias_desde_def Let_def)

lemma nomes_18: "nomes filtro_18 = map (\<lambda>(n, k). VStr n) lista_18"
  by (simp add: nomes_def filtro_18_def lista_18_def carregado_n_def parceiro_n_def)

lemma taxas_18:
  "series filtro_18 col_taxa_conv =
     Inr (map VNum [1/4, 1/2, 3/4, 3/4, 1/2, 1/2, 1, 3/4, 3/4, 1/4, 1/2, 1, 3/4, 3/4, 1, 3/4, 3/4, 1])"
  by (simp add: series_def filtro_18_def lista_18_def carregado_n_def colunas_carregadas_def)

text \<open>
  The ranking of the eighteen partners with the stable insertion sort, and with numpy's
  portable quicksort: there R, the last of the four partners of rate 1, comes first, and
  Q comes before partners of the same rate that stand earlier in the sheet.
\<close>

lemma top_estavel_18:
  "map_sum id nomes (top_parceiros argsort_estavel filtro_18) =
     Inr (map VStr [''G'', ''L'', ''O'', ''R'', ''C'', ''D'', ''H'', ''I'', ''M'', ''N''])"
  by code_simp

lemma top_numpy_18:
  "map_sum id nomes (top_parceiros argsort_numpy filtro_18) =
     Inr (map VStr [''R'', ''G'', ''L'', ''O'', ''Q'', ''C'', ''D'', ''H'', ''I'', ''M''])"
  by code_simp

text \<open>
  The quicksort stays within its depth limit on these keys, and leaves the rates in
  descending order: only the order of the partners of equal rate is another one.
\<close>

lemma aquicksort_18: "aquicksort (rev (taxas filtro_18)) \<noteq> None"
  by code_simp

lemma taxas_numpy_18:
  "map_sum id taxas (top_parceiros argsort_numpy filtro_18) =
     Inr (map VNum [1, 1, 1, 1, 3/4, 3/4, 3/4, 3/4, 3/4, 3/4])"
  by code_simp

text \<open>
  Claim C6 as stated fails for the order of equal keys. The sheet of the eighteen
  partners A to R of \<open>lista_18\<close> loads; a stable sort ranks G, L, O, R (rate 1, in sheet order) and then C, D, H, I, M, N
  (rate 3/4, in sheet order); with numpy's quicksort the ranking of line 97 holds the same
  rates and is another one.
\<close>

theorem top_parceiros_nao_estavel:
  "load_data conv_exemplo 1704153600000000000 (Inr base_18) = (None, filtro_18) \<and>
   nomes filtro_18 = map (\<lambda>(n, k). VStr n) lista_18 \<and>
   series filtro_18 col_taxa_conv =
     Inr (map VNum [1/4, 1/2, 3/4, 3/4, 1/2, 1/2, 1, 3/4, 3/4, 1/4, 1/2, 1, 3/4, 3/4, 1, 3/4, 3/4, 1]) \<and>
   map_sum id nomes (top_parceiros argsort_estavel filtro_18) =
     Inr (map VStr [''G'', ''L'', ''O'', ''R'', ''C'', ''D'', ''H'', ''I'', ''M'', ''N'']) \<and>
   map_sum id taxas (top_parceiros argsort_numpy filtro_18) =
     Inr (map VNum [1, 1, 1, 1, 3/4, 3/4, 3/4, 3/4, 3/4, 3/4]) \<and>
   map_sum id nomes (top_parceiros argsort_numpy filtro_18) \<noteq>
     Inr (map VStr [''G'', ''L'', ''O'', ''R'', ''C'', ''D'', ''H'', ''I'', ''M'', ''N''])"
  using load_data_18 nomes_18 taxas_18 top_estavel_18 top_numpy_18 taxas_numpy_18 by simp

lemma sorted_antes_nth:
  assumes "sorted_wrt (\<lambda>r r'. antes (cell r c) (cell r' c)) s" and "i < j" and "j < length s"
  shows "(cell (s ! i) c = VNaN \<longrightarrow> cell (s ! j) c = VNaN) \<and>
         (\<forall>x y. cell (s ! i) c = VNum x \<and> cell (s ! j) c = VNum y \<longrightarrow> y \<le> x)"
proof -
  have "antes (cell (s ! i) c) (cell (s ! j) c)"
    using assms by (simp add: sorted_wrt_iff_nth_less)
  then show ?thesis
    by (auto simp: antes_def chave_def)
qed

text \<open>
  Claim C6, amended: for every frame, every key column that holds numbers or missing
  values, and every \<open>n\<close>, sorting by the key in descending order and taking the head gives
  the first \<open>n\<close> rows of a rearrangement \<open>s\<close> of all the rows in which the keys do not
  increase and the missing keys come last; when \<open>n\<close> is at least the number of rows, that
  is all of \<open>s\<close>, and no error is raised. The order among rows of equal key is the one
  the sorting routine leaves, not necessarily the original one. The ranking of line 97 is
  the instance with the conversion rate as key and \<open>n = 10\<close>.
\<close>

theorem top_n_ordenado:
  assumes "argsort_ok a" and "by \<in> set (columns df)"
    and "\<forall>r \<in> set (rows df). numeric (cell r by)"
  shows "\<exists>s. mset s = mset (rows df) \<and>
             sorted_wrt (\<lambda>r r'. antes (cell r by) (cell r' by)) s \<and>
             (\<forall>i j. i < j \<and> j < length s \<longrightarrow>
                (cell (s ! i) by = VNaN \<longrightarrow> cell (s ! j) by = VNaN) \<and>
                (\<forall>x y. cell (s ! i) by = VNum x \<and> cell (s ! j) by = VNum y \<longrightarrow> y \<le> x)) \<and>
             bind_err (sort_values a df by False) (\<lambda>x. Inr (head n x))
               = Inr (df\<lparr>rows := take n s\<rparr>) \<and>
             (length (rows df) \<le> n \<longrightarrow> take n s = s) \<and>
             top_parceiros a df
               = bind_err (sort_values a df col_taxa_conv False) (\<lambda>x. Inr (head 10 x))"
proof -
  obtain s where s: "sort_values a df by False = Inr (df\<lparr>rows := s\<rparr>)"
      "mset s = mset (rows df)"
      "sorted_wrt (\<lambda>r r'. antes (cell r by) (cell r' by)) s"
    using sort_values_desc [OF assms(1,2)] by blast
  have len: "length s = length (rows df)"
    using s(2) by (metis size_mset)
  have nth: "\<forall>i j. i < j \<and> j < length s \<longrightarrow>
                (cell (s ! i) by = VNaN \<longrightarrow> cell (s ! j) by = VNaN) \<and>
                (\<forall>x y. cell (s ! i) by = VNum x \<and> cell (s ! j) by = VNum y \<longrightarrow> y \<le> x)"
    using sorted_antes_nth [OF s(3)] by blast
  have "bind_err (sort_values a df by False) (\<lambda>x. Inr (head n x)) = Inr (df\<lparr>rows := take n s\<rparr>)"
    by (simp add: s(1) bind_err_def head_def)
  moreover have "length (rows df) \<le> n \<longrightarrow> take n s = s"
    using len by simp
  moreover have "top_parceiros a df
      = bind_err (sort_values a df col_taxa_conv False) (\<lambda>x. Inr (head 10 x))"
    by (simp add: top_parceiros_def)
  ultimately show ?thesis
    using s(2,3) nth by blast
qed

theorem top_n_ordenado_witness:
  "argsort_ok argsort_estavel \<and>
   col_taxa_conv \<in> set (columns filtro_18) \<and>
   list_all (\<lambda>r. numeric (cell r col_taxa_conv)) (rows filtro_18) \<and>
   length (rows filtro_18) = 18 \<and>
   (\<exists>s. mset s = mset (rows filtro_18) \<and>
        sorted_wrt (\<lambda>r r'. antes (cell r col_taxa_conv) (cell r' col_taxa_conv)) s \<and>
        top_parceiros argsort_estavel filtro_18 = Inr (filtro_18\<lparr>rows := take 10 s\<rparr>) \<and>
        length (take 10 s) = 10) \<and>
   map_sum id nomes (top_parceiros argsort_estavel filtro_18) =
     Inr (map VStr [''G'', ''L'', ''O'', ''R'', ''C'', ''D'', ''H'', ''I'', ''M'', ''N'']) \<and>
   map_sum id taxas (top_parceiros argsort_estavel filtro_18) =
     Inr (map VNum [1, 1, 1, 1, 3/4, 3/4, 3/4, 3/4, 3/4, 3/4]) \<and>
   col_taxa_conv \<in> set (columns filtro_empate) \<and>
   list_all (\<lambda>r. numeric (cell r col_taxa_conv)) (rows filtro_empate) \<and>
   (\<exists>s. mset s = mset (rows filtro_empate) \<and>
        top_parceiros argsort_estavel filtro_empate = Inr (filtro_empate\<lparr>rows := s\<rparr>))"
proof -
  have h1: "argsort_ok argsort_estavel"
    by (rule argsort_ok_estavel)
  have h2: "col_taxa_conv \<in> set (columns filtro_18)"
    by (simp add: filtro_18_def colunas_carregadas_def)
  have h3: "\<forall>r \<in> set (rows filtro_18). numeric (cell r col_taxa_conv)"
    by (simp add: filtro_18_def lista_18_def carregado_n_def numeric_def)
  have l18: "length (rows filtro_18) = 18"
    by (simp add: filtro_18_def lista_18_def)
  obtain s where s: "mset s = mset (rows filtro_18)"
    "sorted_wrt (\<lambda>r r'. antes (cell r col_taxa_conv) (cell r' col_taxa_conv)) s"
    "bind_err (sort_values argsort_estavel filtro_18 col_taxa_conv False) (\<lambda>x. Inr (head 10 x))
       = Inr (filtro_18\<lparr>rows := take 10 s\<rparr>)"
    "top_parceiros argsort_estavel filtro_18
       = bind_err (sort_values argsort_estavel filtro_18 col_taxa_conv False)
           (\<lambda>x. Inr (head 10 x))"
    using top_n_ordenado [OF h1 h2 h3, of 10] by blast
  have "length s = 18"
    using s(1) l18 by (metis size_mset)
  then have A: "\<exists>s. mset s = mset (rows filtro_18) \<and>
        sorted_wrt (\<lambda>r r'. antes (cell r col_taxa_conv) (cell r' col_taxa_conv)) s \<and>
        top_parceiros argsort_estavel filtro_18 = Inr (filtro_18\<lparr>rows := take 10 s\<rparr>) \<and>
        length (take 10 s) = 10"
    using s by auto
  have g2: "col_taxa_conv \<in> set (columns filtro_empate)"
    by (simp add: filtro_empate_def colunas_carregadas_def)
  have g3: "\<forall>r \<in> set (rows filtro_empate). numeric (cell r col_taxa_conv)"
    by (simp add: filtro_empate_def numeric_def)
  have l2: "length (rows filtro_empate) \<le> 10"
    by (simp add: filtro_empate_def)
  obtain s2 where s2: "mset s2 = mset (rows filtro_empate)"
    "bind_err (sort_values argsort_estavel filtro_empate col_taxa_conv False)
        (\<lambda>x. Inr (head 10 x)) = Inr (filtro_empate\<lparr>rows := take 10 s2\<rparr>)"
    "length (rows filtro_empate) \<le> 10 \<longrightarrow> take 10 s2 = s2"
    "top_parceiros argsort_estavel filtro_empate
       = bind_err (sort_values argsort_estavel filtro_empate col_taxa_conv False)
           (\<lambda>x. Inr (head 10 x))"
    using top_n_ordenado [OF h1 g2 g3, of 10] by blast
  have B: "\<exists>s. mset s = mset (rows filtro_empate) \<and>
        top_parceiros argsort_estavel filtro_empate = Inr (filtro_empate\<lparr>rows := s\<rparr>)"
    using s2 l2 by auto
  have C: "map_sum id taxas (top_parceiros argsort_estavel filtro_18) =
     Inr (map VNum [1, 1, 1, 1, 3/4, 3/4, 3/4, 3/4, 3/4, 3/4])"
    by code_simp
  show ?thesis
    using h1 h2 h3 l18 A B C g2 g3 top_estavel_18 by (simp add: list_all_iff)
qed


section \<open>Properties of the churn risk section\<close>

lemma lt_scalar_numeric: "numeric v \<Longrightarrow> \<exists>b. lt_scalar v c = Inr b"
  by (cases v) (auto simp: numeric_def lt_scalar_def)

lemma gt_scalar_numeric: "numeric v \<Longrightarrow> \<exists>b. gt_scalar v c = Inr b"
  by (cases v) (auto simp: numeric_def gt_scalar_def)

lemma lt_scalar_erro: "lt_scalar v c = Inl e \<Longrightarrow> e = TypeError"
  by (cases v) (simp_all add: lt_scalar_def)

lemma gt_scalar_erro: "gt_scalar v c = Inl e \<Longrightarrow> e = TypeError"
  by (cases v) (simp_all add: gt_scalar_def)

lemma length_ou: "length (ou xs ys) = min (length xs) (length ys)"
  by (simp add: ou_def)

lemma nth_ou: "i < length xs \<Longrightarrow> i < length ys \<Longrightarrow> ou xs ys ! i = (xs ! i \<or> ys ! i)"
  by (simp add: ou_def)

lemma mascara_risco_Inr:
  assumes "mascara_risco f = Inr m"
  shows "length m = length (rows f) \<and>
         (\<forall>i < length (rows f). m ! i =
            (cell (rows f ! i) col_status = VStr ''Inativo'' \<or>
             lt_scalar (cell (rows f ! i) col_nps) 30 = Inr True \<or>
             gt_scalar (cell (rows f ! i) col_dias) 60 = Inr True \<or>
             lt_scalar (cell (rows f ! i) col_taxa_conv) (2 / 10) = Inr True))"
proof -
  from assms obtain m2 m3 m4 where
    m2: "sequence (map (\<lambda>v. lt_scalar v 30) (map (\<lambda>r. cell r col_nps) (rows f))) = Inr m2"
    and m3: "sequence (map (\<lambda>v. gt_scalar v 60) (map (\<lambda>r. cell r col_dias) (rows f))) = Inr m3"
    and m4: "sequence (map (\<lambda>v. lt_scalar v (2 / 10)) (map (\<lambda>r. cell r col_taxa_conv) (rows f))) = Inr m4"
    and m: "m = ou (ou (ou (map (\<lambda>v. v = VStr ''Inativo'') (map (\<lambda>r. cell r col_status) (rows f))) m2) m3) m4"
    unfolding mascara_risco_def bind_err_Inr series_Inr by blast
  note s2 = sequence_map_Inr [OF m2] and s3 = sequence_map_Inr [OF m3]
    and s4 = sequence_map_Inr [OF m4]
  have len: "length m = length (rows f)"
    using s2 s3 s4 by (simp add: m length_ou)
  have "m ! i =
            (cell (rows f ! i) col_status = VStr ''Inativo'' \<or>
             lt_scalar (cell (rows f ! i) col_nps) 30 = Inr True \<or>
             gt_scalar (cell (rows f ! i) col_dias) 60 = Inr True \<or>
             lt_scalar (cell (rows f ! i) col_taxa_conv) (2 / 10) = Inr True)"
    if i: "i < length (rows f)" for i
  proof -
    have "lt_scalar (cell (rows f ! i) col_nps) 30 = Inr (m2 ! i)"
      and "gt_scalar (cell (rows f ! i) col_dias) 60 = Inr (m3 ! i)"
      and "lt_scalar (cell (rows f ! i) col_taxa_conv) (2 / 10) = Inr (m4 ! i)"
      using s2 s3 s4 i by simp_all
    then show ?thesis
      using s2 s3 s4 i by (simp add: m nth_ou length_ou)
  qed
  then show ?thesis using len by blast
qed

lemma mascara_risco_erro:
  assumes "\<forall>c \<in> set colunas_risco. c \<in> set (columns f)" and "mascara_risco f = Inl e"
  shows "e = TypeError"
proof -
  have cols: "col_status \<in> set (columns f)" "col_nps \<in> set (columns f)"
    "col_dias \<in> set (columns f)" "col_taxa_conv \<in> set (columns f)"
    using assms(1) by (simp_all add: colunas_risco_def)
  show ?thesis
    using assms(2) cols
    by (auto simp: mascara_risco_def bind_err_def series_def split: sum.splits
        dest!: sequence_map_Inl dest: lt_scalar_erro gt_scalar_erro)
qed

lemma mascara_risco_total:
  assumes "\<forall>c \<in> set colunas_risco. c \<in> set (columns f)"
    and "\<forall>r \<in> set (rows f). numeric (cell r col_nps) \<and> numeric (cell r col_dias) \<and>
           numeric (cell r col_taxa_conv)"
  shows "\<exists>m. mascara_risco f = Inr m"
proof (cases "mascara_risco f")
  case (Inr m)
  then show ?thesis by blast
next
  case (Inl e)
  have cols: "col_status \<in> set (columns f)" "col_nps \<in> set (columns f)"
    "col_dias \<in> set (columns f)" "col_taxa_conv \<in> set (columns f)"
    using assms(1) by (simp_all add: colunas_risco_def)
  have False
    using Inl cols assms(2)
    by (auto simp: mascara_risco_def bind_err_def series_def split: sum.splits
        dest!: sequence_map_Inl)
       (metis lt_scalar_numeric gt_scalar_numeric sum.distinct(1))+
  then show ?thesis ..
qed

lemma secao_risco_Inr:
  assumes "secao_risco a f = Inr (f1, rc)"
  shows "\<exists>m. mascara_risco f = Inr m \<and> f1 = set_column f col_risco (map VBool m)"
  using assms
  by (auto simp: secao_risco_def bind_err_Inr Let_def split: if_splits)

lemma secao_risco_total:
  assumes "\<forall>c \<in> set colunas_risco. c \<in> set (columns f)" and "mascara_risco f = Inr m"
  shows "\<exists>rc. secao_risco a f = Inr (set_column f col_risco (map VBool m), rc)"
proof -
  have "col_dias \<in> set (columns f)"
    using assms(1) by (simp add: colunas_risco_def)
  then show ?thesis
    using assms
    by (simp add: secao_risco_def bind_err_def Let_def sort_values_def columns_set_column)
qed

text \<open>
  Claim C5: the section reports \<open>DadosIncompletos\<close>, and computes no flag, exactly
  when the frame lacks one of the four columns it reads; this does not depend on the rows.
  With the four columns present it never gives that report.
\<close>

theorem risco_dados_incompletos:
  "secao_risco a f = Inl DadosIncompletos \<longleftrightarrow>
   \<not> (\<forall>c \<in> set colunas_risco. c \<in> set (columns f))"
proof (cases "\<forall>c \<in> set colunas_risco. c \<in> set (columns f)")
  case False
  then have "secao_risco a f = Inl DadosIncompletos"
    unfolding secao_risco_def by (rule if_not_P)
  then show ?thesis using False by blast
next
  case True
  show ?thesis
  proof (cases "mascara_risco f")
    case (Inl e)
    then have "e = TypeError"
      using mascara_risco_erro [OF True] by blast
    then show ?thesis
      using True Inl by (simp add: secao_risco_def bind_err_def)
  next
    case (Inr m)
    then show ?thesis
      using secao_risco_total [OF True Inr, of a] True by auto
  qed
qed


lemma filtro_inativo_cols: "\<forall>c \<in> set colunas_risco. c \<in> set (columns filtro_inativo)"
  by (simp add: colunas_risco_def filtro_inativo_def colunas_carregadas_def colunas_base_def)

lemma filtro_inativo_num:
  "\<forall>r \<in> set (rows filtro_inativo).
     numeric (cell r col_nps) \<and> numeric (cell r col_dias) \<and> numeric (cell r col_taxa_conv)"
  by (simp add: filtro_inativo_def inativo_a_def numeric_def)


theorem risco_dados_incompletos_witness:
  "\<not> list_all (\<lambda>c. c \<in> set (columns filtro_sem_nps)) colunas_risco \<and>
   secao_risco argsort_estavel filtro_sem_nps = Inl DadosIncompletos \<and>
   list_all (\<lambda>c. c \<in> set (columns filtro_empate)) colunas_risco \<and>
   secao_risco argsort_estavel filtro_empate \<noteq> Inl DadosIncompletos"
proof -
  have h1: "\<not> (\<forall>c \<in> set colunas_risco. c \<in> set (columns filtro_sem_nps))"
    by (simp add: colunas_risco_def filtro_sem_nps_def colunas_carregadas_def colunas_base_def)
  have h2: "\<forall>c \<in> set colunas_risco. c \<in> set (columns filtro_empate)"
    by (simp add: colunas_risco_def filtro_empate_def colunas_carregadas_def colunas_base_def)
  have "secao_risco argsort_estavel filtro_sem_nps = Inl DadosIncompletos"
    using h1 risco_dados_incompletos [of argsort_estavel filtro_sem_nps] by blast
  moreover have "secao_risco argsort_estavel filtro_empate \<noteq> Inl DadosIncompletos"
    using h2 risco_dados_incompletos [of argsort_estavel filtro_empate] by blast
  ultimately show ?thesis
    using h1 h2 by (simp add: list_all_iff)
qed

lemma passo_filtro_inv:
  assumes "v_df s = 0" "objs s 0 = Some d" "0 < v_filtro s" "v_filtro s < prox s"
    "objs s (v_filtro s) = Some f"
  shows "v_df (passo_filtro s cv) = 0 \<and> objs (passo_filtro s cv) 0 = Some d \<and>
         0 < v_filtro (passo_filtro s cv) \<and> v_filtro (passo_filtro s cv) < prox (passo_filtro s cv) \<and>
         objs (passo_filtro s cv) (v_filtro (passo_filtro s cv)) = Some (filtrar f cv)"
  using assms by (simp add: passo_filtro_def novo_def filtrar_def)

lemma laco_filtros_inv:
  assumes "v_df s = 0" "objs s 0 = Some d" "0 < v_filtro s" "v_filtro s < prox s"
    "objs s (v_filtro s) = Some f"
  shows "v_df (laco_filtros s fs) = 0 \<and> objs (laco_filtros s fs) 0 = Some d \<and>
         0 < v_filtro (laco_filtros s fs) \<and>
         v_filtro (laco_filtros s fs) < prox (laco_filtros s fs) \<and>
         objs (laco_filtros s fs) (v_filtro (laco_filtros s fs)) = Some (aplicar_filtros f fs)"
  using assms
proof (induction fs arbitrary: s f)
  case Nil
  then show ?case by (simp add: laco_filtros_def aplicar_filtros_def)
next
  case (Cons cv fs)
  note step = passo_filtro_inv [OF Cons.prems, of cv]
  have "laco_filtros s (cv # fs) = laco_filtros (passo_filtro s cv) fs"
    by (simp add: laco_filtros_def)
  moreover have "aplicar_filtros f (cv # fs) = aplicar_filtros (filtrar f cv) fs"
    by (simp add: aplicar_filtros_def)
  ultimately show ?case
    using Cons.IH [of "passo_filtro s cv" "filtrar f cv"] step by simp
qed

lemma copiar_inicio:
  "v_df (copiar (inicio d)) = 0 \<and> objs (copiar (inicio d)) 0 = Some d \<and>
   0 < v_filtro (copiar (inicio d)) \<and> v_filtro (copiar (inicio d)) < prox (copiar (inicio d)) \<and>
   objs (copiar (inicio d)) (v_filtro (copiar (inicio d))) = Some d"
  by (simp add: copiar_def inicio_def novo_def)

lemma filtro_antes_do_risco:
  "v_df (laco_filtros (copiar (inicio d)) fs) = 0 \<and>
   objs (laco_filtros (copiar (inicio d)) fs) 0 = Some d \<and>
   0 < v_filtro (laco_filtros (copiar (inicio d)) fs) \<and>
   objs (laco_filtros (copiar (inicio d)) fs) (v_filtro (laco_filtros (copiar (inicio d)) fs))
     = Some (aplicar_filtros d fs)"
  using copiar_inicio [of d] laco_filtros_inv [of "copiar (inicio d)" d d fs] by simp

text \<open>
  Claim C9: after \<^verbatim>\<open>filtro = df.copy()\<close>, the filter loop and the risk section, the
  variable \<open>df\<close> still refers to the same object and that object holds the loaded frame,
  unchanged (so without a new column); the object \<open>filtro\<close> refers to holds the filtered
  rows, in the same order and with every cell of every other column as before, and its
  columns are those of the frame with \<open>Risco Churn\<close> appended when it was not there.
\<close>

theorem risco_so_acrescenta:
  assumes "risco_no_estado a (laco_filtros (copiar (inicio d)) fs) = Inr (s', rc)"
  shows "v_df s' = v_df (inicio d) \<and> objs s' (v_df s') = Some d \<and>
         (\<exists>f1. objs s' (v_filtro s') = Some f1 \<and>
               length (rows f1) = length (rows (aplicar_filtros d fs)) \<and>
               (\<forall>i < length (rows f1). \<forall>c. c \<noteq> col_risco \<longrightarrow>
                   (rows f1 ! i) c = (rows (aplicar_filtros d fs) ! i) c) \<and>
               columns f1 = (if col_risco \<in> set (columns d) then columns d
                             else columns d @ [col_risco]))"
proof -
  define s where "s = laco_filtros (copiar (inicio d)) fs"
  define f where "f = aplicar_filtros d fs"
  have inv: "v_df s = 0" "objs s 0 = Some d" "0 < v_filtro s" "objs s (v_filtro s) = Some f"
    using filtro_antes_do_risco [of d fs] by (simp_all add: s_def f_def)
  from assms obtain f1 where f1: "secao_risco a f = Inr (f1, rc)"
    and s': "s' = s\<lparr>objs := (objs s)(v_filtro s \<mapsto> f1)\<rparr>"
    unfolding s_def [symmetric]
    by (auto simp: risco_no_estado_def inv bind_err_Inr)
  obtain m where m: "mascara_risco f = Inr m" and f1m: "f1 = set_column f col_risco (map VBool m)"
    using secao_risco_Inr [OF f1] by blast
  have len: "length (map VBool m) = length (rows f)"
    using mascara_risco_Inr [OF m] by simp
  have 1: "v_df s' = v_df (inicio d)" "objs s' (v_df s') = Some d" "objs s' (v_filtro s') = Some f1"
    using inv by (simp_all add: s' inicio_def)
  have 2: "length (rows f1) = length (rows f)"
    using len by (simp add: f1m length_rows_set_column)
  have 3: "(rows f1 ! i) c = (rows f ! i) c" if "i < length (rows f1)" "c \<noteq> col_risco" for i c
    using that 2 by (simp add: f1m nth_rows_set_column [OF len])
  have 4: "columns f1 = (if col_risco \<in> set (columns d) then columns d else columns d @ [col_risco])"
    by (simp add: f1m set_column_def f_def columns_aplicar_filtros)
  show ?thesis
    using 1 2 3 4 unfolding f_def by blast
qed

theorem risco_so_acrescenta_witness:
  "\<exists>s' rc.
     risco_no_estado argsort_estavel
       (laco_filtros (copiar (inicio filtro_inativo)) [(col_cidade, [VStr ''Recife''])])
       = Inr (s', rc) \<and>
     v_df s' = v_df (inicio filtro_inativo) \<and> objs s' (v_df s') = Some filtro_inativo \<and>
     (\<exists>f1. objs s' (v_filtro s') = Some f1 \<and>
        length (rows f1)
          = length (rows (aplicar_filtros filtro_inativo [(col_cidade, [VStr ''Recife''])])) \<and>
        (\<forall>i < length (rows f1). \<forall>c. c \<noteq> col_risco \<longrightarrow>
           (rows f1 ! i) c
             = (rows (aplicar_filtros filtro_inativo [(col_cidade, [VStr ''Recife''])]) ! i) c) \<and>
        columns f1 = (if col_risco \<in> set (columns filtro_inativo) then columns filtro_inativo
                      else columns filtro_inativo @ [col_risco]))"
proof -
  define fs where "fs = [(col_cidade, [VStr ''Recife''])]"
  define s where "s = laco_filtros (copiar (inicio filtro_inativo)) fs"
  have f: "aplicar_filtros filtro_inativo fs = filtro_inativo"
    by (simp add: fs_def aplicar_filtros_def filtrar_def aplica_def selecionar_def
        filtro_inativo_def colunas_carregadas_def colunas_base_def inativo_a_def)
  have obj: "objs s (v_filtro s) = Some filtro_inativo"
    using filtro_antes_do_risco [of filtro_inativo fs] by (simp add: s_def f)
  obtain m where "mascara_risco filtro_inativo = Inr m"
    using mascara_risco_total [OF filtro_inativo_cols filtro_inativo_num] by blast
  then obtain f1 rc where "secao_risco argsort_estavel filtro_inativo = Inr (f1, rc)"
    using secao_risco_total [OF filtro_inativo_cols, of m argsort_estavel] by blast
  then have h: "risco_no_estado argsort_estavel s
      = Inr (s\<lparr>objs := (objs s)(v_filtro s \<mapsto> f1)\<rparr>, rc)"
    by (simp add: risco_no_estado_def obj bind_err_def)
  show ?thesis
    using h risco_so_acrescenta [of argsort_estavel filtro_inativo fs]
    unfolding s_def fs_def by blast
qed

section \<open>Properties of the channel summary\<close>

lemma sum_length_filter_keys:
  "distinct ks \<Longrightarrow>
   (\<Sum>k\<leftarrow>ks. length (filter (\<lambda>r. h r = k \<and> Q r) rs))
     = length (filter (\<lambda>r. h r \<in> set ks \<and> Q r) rs)"
proof (induction ks)
  case Nil
  then show ?case by simp
next
  case (Cons k ks)
  have "length (filter (\<lambda>r. h r = k \<and> Q r) rs) + length (filter (\<lambda>r. h r \<in> set ks \<and> Q r) rs)
      = length (filter (\<lambda>r. h r \<in> set (k # ks) \<and> Q r) rs)"
    using Cons.prems by (induction rs) auto
  then show ?case
    using Cons by simp
qed

lemma chaves_grupo_set: "set (chaves_grupo ks) = set ks - {VNaN}"
  by (auto simp: chaves_grupo_def)

lemma chaves_grupo_distinct: "distinct (chaves_grupo ks)"
  by (simp add: chaves_grupo_def)

lemma resumo_grupo_Inr:
  assumes "resumo_grupo f k = Inr g"
  shows "cell g col_canal = k \<and>
         cell g col_qtd_parceiros
           = VNum (real (length (filter (\<lambda>r. cell r col_canal = k \<and> cell r col_nome \<noteq> VNaN) (rows f))))"
proof -
  have "count (map (\<lambda>r. cell r col_nome) (filter (\<lambda>r. cell r col_canal = k) (rows f)))
      = length (filter (\<lambda>r. cell r col_canal = k \<and> cell r col_nome \<noteq> VNaN) (rows f))"
    by (simp add: count_def filter_map o_def conj_commute)
  then show ?thesis
    using assms by (auto simp: resumo_grupo_def Let_def bind_err_Inr cell_def)
qed

lemma agrupar_canal_Inr:
  assumes "agrupar_canal f = Inr g"
  shows "columns g = [col_canal, col_taxa_media, col_qtd_parceiros] \<and>
         map (\<lambda>r. cell r col_canal) (rows g) = chaves_grupo (map (\<lambda>r. cell r col_canal) (rows f)) \<and>
         map (\<lambda>r. num_of (cell r col_qtd_parceiros)) (rows g)
           = map (\<lambda>k. real (length (filter (\<lambda>r. cell r col_canal = k \<and> cell r col_nome \<noteq> VNaN) (rows f))))
               (chaves_grupo (map (\<lambda>r. cell r col_canal) (rows f)))"
proof -
  define ks where "ks = chaves_grupo (map (\<lambda>r. cell r col_canal) (rows f))"
  from assms obtain gs where gs: "sequence (map (resumo_grupo f) ks) = Inr gs"
    and g: "g = \<lparr>columns = [col_canal, col_taxa_media, col_qtd_parceiros], rows = gs\<rparr>"
    unfolding agrupar_canal_def bind_err_Inr series_Inr ks_def by auto
  note s = sequence_map_Inr [OF gs]
  have each: "cell (gs ! i) col_canal = ks ! i \<and>
      cell (gs ! i) col_qtd_parceiros
        = VNum (real (length (filter (\<lambda>r. cell r col_canal = ks ! i \<and> cell r col_nome \<noteq> VNaN) (rows f))))"
    if "i < length ks" for i
    using s that resumo_grupo_Inr [of f "ks ! i" "gs ! i"] by simp
  have 1: "map (\<lambda>r. cell r col_canal) gs = ks"
    using s each by (simp add: list_eq_iff_nth_eq)
  have 2: "map (\<lambda>r. num_of (cell r col_qtd_parceiros)) gs
      = map (\<lambda>k. real (length (filter (\<lambda>r. cell r col_canal = k \<and> cell r col_nome \<noteq> VNaN) (rows f)))) ks"
    using s each by (simp add: list_eq_iff_nth_eq num_of_def)
  show ?thesis
    using 1 2 by (simp add: g ks_def)
qed

lemma sum_list_mset_cong:
  assumes "mset xs = mset ys"
  shows "sum_list (map h xs) = (sum_list (map h ys) :: real)"
proof -
  have "mset (map h xs) = mset (map h ys)"
    using assms by simp
  then have "sum_mset (mset (map h xs)) = sum_mset (mset (map h ys))"
    by (rule arg_cong)
  then show ?thesis
    by (simp only: sum_mset_sum_list)
qed

lemma secao_canais_Some:
  assumes "secao_canais a f = Inr (Some (cc, melhor))"
  shows "col_canal \<in> set (columns f) \<and>
         (\<exists>g. agrupar_canal f = Inr g \<and> sort_values a g col_taxa_media False = Inr cc) \<and>
         rows cc \<noteq> [] \<and> melhor = hd (rows cc)"
  using assms
  by (auto simp: secao_canais_def bind_err_Inr iloc0_def split: if_splits list.splits)

text \<open>
  Claim C10, amended: no group of \<open>canal_conv\<close> has a missing channel, and the member
  counts of the groups add up to the number of records that have both a channel and a
  partner name: \<^verbatim>\<open>"Nome do Parceiro": "count"\<close> counts the names that are not missing.
\<close>

theorem contagem_por_canal:
  assumes ok: "argsort_ok a" and sec: "secao_canais a f = Inr (Some (cc, melhor))"
  shows "(\<forall>g \<in> set (rows cc). cell g col_canal \<noteq> VNaN) \<and>
         (\<Sum>g\<leftarrow>rows cc. num_of (cell g col_qtd_parceiros))
           = real (length (filter (\<lambda>r. cell r col_canal \<noteq> VNaN \<and> cell r col_nome \<noteq> VNaN) (rows f)))"
proof -
  define ks where "ks = chaves_grupo (map (\<lambda>r. cell r col_canal) (rows f))"
  obtain g where g: "agrupar_canal f = Inr g"
    and cc: "sort_values a g col_taxa_media False = Inr cc"
    using secao_canais_Some [OF sec] by blast
  note ag = agrupar_canal_Inr [OF g]
  have "col_taxa_media \<in> set (columns g)"
    using ag by simp
  from sort_values_desc [OF ok this] cc have perm: "mset (rows cc) = mset (rows g)"
    by auto
  have "set (map (\<lambda>r. cell r col_canal) (rows cc)) = set (map (\<lambda>r. cell r col_canal) (rows g))"
    using perm by (metis mset_map mset_eq_setD)
  then have 1: "\<forall>g \<in> set (rows cc). cell g col_canal \<noteq> VNaN"
    using ag by (auto simp: chaves_grupo_set)
  have "(\<Sum>g\<leftarrow>rows cc. num_of (cell g col_qtd_parceiros))
      = (\<Sum>g\<leftarrow>rows g. num_of (cell g col_qtd_parceiros))"
    by (rule sum_list_mset_cong [OF perm])
  also have "\<dots> = (\<Sum>k\<leftarrow>ks. real (length (filter (\<lambda>r. cell r col_canal = k \<and> cell r col_nome \<noteq> VNaN) (rows f))))"
    using ag by (simp add: ks_def)
  also have "\<dots> = real (\<Sum>k\<leftarrow>ks. length (filter (\<lambda>r. cell r col_canal = k \<and> cell r col_nome \<noteq> VNaN) (rows f)))"
    by (induction ks) simp_all
  also have "\<dots> = real (length (filter (\<lambda>r. cell r col_canal \<in> set ks \<and> cell r col_nome \<noteq> VNaN) (rows f)))"
    by (simp add: sum_length_filter_keys chaves_grupo_distinct ks_def)
  also have "filter (\<lambda>r. cell r col_canal \<in> set ks \<and> cell r col_nome \<noteq> VNaN) (rows f)
      = filter (\<lambda>r. cell r col_canal \<noteq> VNaN \<and> cell r col_nome \<noteq> VNaN) (rows f)"
    by (rule filter_cong) (auto simp: ks_def chaves_grupo_set)
  finally show ?thesis using 1 by blast
qed

lemma chaves_sem_nome:
  "chaves_grupo (map (\<lambda>r. cell r col_canal) (rows filtro_sem_nome)) = [VStr ''Site'']"
  by (simp add: chaves_grupo_def filtro_sem_nome_def empate_a_def sem_nome_def)

lemma resumo_sem_nome:
  "resumo_grupo filtro_sem_nome (VStr ''Site'') = Inr (grupo (VStr ''Site'') (VNum (1 / 2)) (VNum 1))"
  by (simp add: resumo_grupo_def Let_def filtro_sem_nome_def empate_a_def sem_nome_def
      mean_def numeric_def as_float_def bind_err_def count_def grupo_def)

lemma agrupar_sem_nome: "agrupar_canal filtro_sem_nome = Inr canal_conv_sem_nome"
  using chaves_sem_nome resumo_sem_nome
  by (simp add: agrupar_canal_def bind_err_def series_def canal_conv_sem_nome_def)
     (simp add: filtro_sem_nome_def colunas_carregadas_def colunas_base_def)

lemma ordenar_sem_nome:
  "sort_values argsort_estavel canal_conv_sem_nome col_taxa_media False = Inr canal_conv_sem_nome"
  by (simp add: sort_values_def canal_conv_sem_nome_def nargsort_def Let_def argsort_estavel_def
      grupo_def cell_def)

lemma secao_canais_sem_nome:
  "secao_canais argsort_estavel filtro_sem_nome
     = Inr (Some (canal_conv_sem_nome, grupo (VStr ''Site'') (VNum (1 / 2)) (VNum 1)))"
proof -
  have "col_canal \<in> set (columns filtro_sem_nome)"
    by (simp add: filtro_sem_nome_def colunas_carregadas_def colunas_base_def)
  moreover have "iloc0 canal_conv_sem_nome = Inr (grupo (VStr ''Site'') (VNum (1 / 2)) (VNum 1))"
    by (simp add: iloc0_def canal_conv_sem_nome_def)
  ultimately show ?thesis
    by (simp add: secao_canais_def bind_err_def agrupar_sem_nome ordenar_sem_nome)
qed

text \<open>
  Claim C10 as stated fails: of two partners of the channel \<open>Site\<close>, one without a
  name, the group \<open>Site\<close> counts one member, while two records have a channel.
\<close>

theorem contagem_ignora_sem_nome:
  "map_sum id (map_option (quantidades \<circ> fst)) (secao_canais argsort_estavel filtro_sem_nome)
     = Inr (Some [VNum 1]) \<and>
   canais_de filtro_sem_nome = [VStr ''Site'', VStr ''Site''] \<and>
   com_canal filtro_sem_nome = 2"
proof (intro conjI)
  show "map_sum id (map_option (quantidades \<circ> fst))
          (secao_canais argsort_estavel filtro_sem_nome) = Inr (Some [VNum 1])"
    by (simp add: secao_canais_sem_nome quantidades_def canal_conv_sem_nome_def grupo_def cell_def)
  show "canais_de filtro_sem_nome = [VStr ''Site'', VStr ''Site'']"
    by (simp add: canais_de_def filtro_sem_nome_def empate_a_def sem_nome_def)
  show "com_canal filtro_sem_nome = 2"
    by (simp add: com_canal_def filtro_sem_nome_def empate_a_def sem_nome_def)
qed

theorem contagem_por_canal_witness:
  "argsort_ok argsort_estavel \<and>
   secao_canais argsort_estavel filtro_sem_nome
     = Inr (Some (canal_conv_sem_nome, grupo (VStr ''Site'') (VNum (1 / 2)) (VNum 1))) \<and>
   list_all (\<lambda>g. cell g col_canal \<noteq> VNaN) (rows canal_conv_sem_nome) \<and>
   (\<Sum>g\<leftarrow>rows canal_conv_sem_nome. num_of (cell g col_qtd_parceiros))
     = real (length (filter (\<lambda>r. cell r col_canal \<noteq> VNaN \<and> cell r col_nome \<noteq> VNaN)
                       (rows filtro_sem_nome)))"
  using contagem_por_canal [OF argsort_ok_estavel secao_canais_sem_nome]
    argsort_ok_estavel secao_canais_sem_nome
  by (simp add: list_all_iff)

section \<open>Properties of the script: channels and ideal profile\<close>

lemma risco_ou_aviso_Inr:
  assumes "risco_ou_aviso a f = Inr (f1, r)"
  shows "f1 = f \<or> (\<exists>m. length m = length (rows f) \<and> f1 = set_column f col_risco (map VBool m))"
proof (cases "secao_risco a f")
  case (Inl e)
  then show ?thesis
    using assms by (simp add: risco_ou_aviso_def split: if_splits)
next
  case (Inr x)
  then obtain rc where "secao_risco a f = Inr (f1, rc)"
    using assms by (cases x) (simp add: risco_ou_aviso_def)
  then obtain m where "mascara_risco f = Inr m" "f1 = set_column f col_risco (map VBool m)"
    using secao_risco_Inr by blast
  then show ?thesis
    using mascara_risco_Inr [of f m] by blast
qed

lemma risco_ou_aviso_keeps:
  assumes "risco_ou_aviso a f = Inr (f1, r)"
  shows "set (columns f) \<subseteq> set (columns f1) \<and> length (rows f1) = length (rows f)"
  using risco_ou_aviso_Inr [OF assms]
  by (auto simp: columns_set_column length_rows_set_column)

lemma secao_canais_rows:
  assumes ok: "argsort_ok a" and sec: "secao_canais a f = Inr (Some (cc, melhor))"
  shows "rows f \<noteq> [] \<and>
         sorted_wrt (\<lambda>g g'. antes (cell g col_taxa_media) (cell g' col_taxa_media)) (rows cc)"
proof -
  obtain g where g: "agrupar_canal f = Inr g"
    and cc: "sort_values a g col_taxa_media False = Inr cc" and ne: "rows cc \<noteq> []"
    using secao_canais_Some [OF sec] by blast
  note ag = agrupar_canal_Inr [OF g]
  have col: "col_taxa_media \<in> set (columns g)"
    using ag by simp
  from sort_values_desc [OF ok col] cc
  have perm: "mset (rows cc) = mset (rows g)"
    and sorted: "sorted_wrt (\<lambda>g g'. antes (cell g col_taxa_media) (cell g' col_taxa_media)) (rows cc)"
    by auto
  have "rows g \<noteq> []"
    using perm ne by auto
  then have "chaves_grupo (map (\<lambda>r. cell r col_canal) (rows f)) \<noteq> []"
    using ag by (metis map_is_Nil_conv)
  then have "rows f \<noteq> []"
    by (auto simp: chaves_grupo_def)
  then show ?thesis using sorted by blast
qed

lemma perfil_ideal_canal:
  assumes "perfil_ideal q75 f1 (Some melhor) = Inr p"
    and "rows f1 \<noteq> []" and "col_canal \<in> set (columns f1)"
  shows "\<exists>pf. p = Some pf \<and> p_canal pf = Some (cell melhor col_canal)"
proof -
  have "\<not> empty_df f1"
    using assms(2,3) by (auto simp: empty_df_def)
  then show ?thesis
    using assms(1,3)
    by (auto simp: perfil_ideal_def bind_err_Inr split: if_splits)
qed

lemma foldl_fadd_VNum: "foldl fadd (VNum a) (map VNum xs) = VNum (a + sum_list xs)"
  by (induction xs arbitrary: a) (simp_all add: add.assoc)

lemma mean_VNum:
  assumes "xs \<noteq> []"
  shows "mean (map VNum xs) = Inr (VNum (sum_list xs / real (length xs)))"
proof -
  have 1: "\<not> (\<exists>v \<in> set (map VNum xs). \<not> numeric v)"
    by (auto simp: numeric_def)
  have 2: "filter (\<lambda>v. v \<noteq> VNaN) (map as_float (map VNum xs)) = map VNum xs"
    by (induction xs) (simp_all add: as_float_def)
  have 3: "real (length xs) \<noteq> 0"
    using assms by simp
  show ?thesis
    unfolding mean_def Let_def 2 using 1 3 assms
    by (simp add: foldl_fadd_VNum)
qed

lemma resumo_grupo_media:
  assumes "resumo_grupo f k = Inr g"
  shows "cell g col_canal = k \<and>
         mean (map (\<lambda>r. cell r col_taxa_conv) (filter (\<lambda>r. cell r col_canal = k) (rows f)))
           = Inr (cell g col_taxa_media)"
  using assms by (auto simp: resumo_grupo_def Let_def bind_err_Inr cell_def)

lemma agrupar_canal_medias:
  assumes "agrupar_canal f = Inr g" and "r \<in> set (rows g)"
  shows "mean (map (\<lambda>x. cell x col_taxa_conv)
                (filter (\<lambda>x. cell x col_canal = cell r col_canal) (rows f)))
           = Inr (cell r col_taxa_media)"
proof -
  define ks where "ks = chaves_grupo (map (\<lambda>r. cell r col_canal) (rows f))"
  from assms(1) obtain gs where gs: "sequence (map (resumo_grupo f) ks) = Inr gs"
    and g: "g = \<lparr>columns = [col_canal, col_taxa_media, col_qtd_parceiros], rows = gs\<rparr>"
    unfolding agrupar_canal_def bind_err_Inr series_Inr ks_def by auto
  note s = sequence_map_Inr [OF gs]
  from assms(2) obtain i where i: "i < length gs" "r = gs ! i"
    by (auto simp: g in_set_conv_nth)
  then have "resumo_grupo f (ks ! i) = Inr r"
    using s by simp
  from resumo_grupo_media [OF this] show ?thesis
    by simp
qed

lemma mset_map_cong: "mset xs = mset ys \<Longrightarrow> mset (map h xs) = mset (map h ys)"
  by simp

text \<open>
  Claim C7: whenever the script runs through with a channel section, the rows of
  \<open>canal_conv\<close> are the channels of the filtered frame, each once and without the missing
  one; the column \<open>Taxa Media\<close> of each row is the mean of \<open>Taxa Conversao\<close> over the
  partners of that channel (for finite rates their sum divided by their number);
  \<open>canal_conv\<close> is in descending order of that mean (missing means last) and is not empty;
  \<open>melhor_canal\<close> is its first row; the profile is built, and the channel it shows is the
  channel of that first row: the profile reads the variable assigned at line 140 and
  computes nothing again.
\<close>

theorem melhor_canal_coerente:
  assumes ok: "argsort_ok a"
    and run: "painel a q75 f = Inr (ms, tp, Some (cc, melhor), risco, p)"
  shows "distinct (canais_de cc) \<and> set (canais_de cc) = set (canais_de f) - {VNaN} \<and>
         (\<forall>g \<in> set (rows cc).
             mean (map (\<lambda>r. cell r col_taxa_conv)
                     (filter (\<lambda>r. cell r col_canal = cell g col_canal) (rows f)))
               = Inr (cell g col_taxa_media)) \<and>
         (\<forall>g \<in> set (rows cc). \<forall>xs.
             map (\<lambda>r. cell r col_taxa_conv)
               (filter (\<lambda>r. cell r col_canal = cell g col_canal) (rows f)) = map VNum xs \<longrightarrow>
             cell g col_taxa_media = VNum (sum_list xs / real (length xs))) \<and>
         sorted_wrt (\<lambda>g g'. antes (cell g col_taxa_media) (cell g' col_taxa_media)) (rows cc) \<and>
         (\<forall>i j. i < j \<and> j < length (rows cc) \<longrightarrow>
            (cell (rows cc ! i) col_taxa_media = VNaN \<longrightarrow> cell (rows cc ! j) col_taxa_media = VNaN) \<and>
            (\<forall>x y. cell (rows cc ! i) col_taxa_media = VNum x \<and>
                   cell (rows cc ! j) col_taxa_media = VNum y \<longrightarrow> y \<le> x)) \<and>
         rows cc \<noteq> [] \<and> melhor = hd (rows cc) \<and>
         (\<exists>pf. p = Some pf \<and> p_canal pf = Some (cell (hd (rows cc)) col_canal))"
proof -
  from run obtain f1 where sec: "secao_canais a f = Inr (Some (cc, melhor))"
    and ra: "risco_ou_aviso a f = Inr (f1, risco)"
    and pi: "perfil_ideal q75 f1 (Some melhor) = Inr p"
    by (auto simp: painel_def bind_err_Inr split: prod.splits)
  note sc = secao_canais_Some [OF sec] and sr = secao_canais_rows [OF ok sec]
    and keep = risco_ou_aviso_keeps [OF ra]
  obtain g where g: "agrupar_canal f = Inr g"
    and cc: "sort_values a g col_taxa_media False = Inr cc"
    using sc by blast
  note ag = agrupar_canal_Inr [OF g]
  have "col_taxa_media \<in> set (columns g)"
    using ag by simp
  from sort_values_desc [OF ok this] cc have perm: "mset (rows cc) = mset (rows g)"
    by auto
  have "mset (canais_de cc) = mset (chaves_grupo (canais_de f))"
    using mset_map_cong [OF perm, of "\<lambda>r. cell r col_canal"] ag
    by (simp add: canais_de_def)
  then have keys: "distinct (canais_de cc)" "set (canais_de cc) = set (canais_de f) - {VNaN}"
    using chaves_grupo_distinct [of "canais_de f"] chaves_grupo_set [of "canais_de f"]
    by (metis mset_eq_imp_distinct_iff, metis mset_eq_setD)
  have rows_eq: "set (rows cc) = set (rows g)"
    using perm by (rule mset_eq_setD)
  have means: "mean (map (\<lambda>r. cell r col_taxa_conv)
                     (filter (\<lambda>r. cell r col_canal = cell x col_canal) (rows f)))
               = Inr (cell x col_taxa_media)" if "x \<in> set (rows cc)" for x
    using that rows_eq agrupar_canal_medias [OF g] by blast
  have arith: "cell x col_taxa_media = VNum (sum_list xs / real (length xs))"
    if x: "x \<in> set (rows cc)"
      and xs: "map (\<lambda>r. cell r col_taxa_conv)
               (filter (\<lambda>r. cell r col_canal = cell x col_canal) (rows f)) = map VNum xs"
    for x xs
  proof -
    have "cell x col_canal \<in> set (canais_de cc)"
      using x by (auto simp: canais_de_def)
    then have "cell x col_canal \<in> set (canais_de f)"
      using keys(2) by blast
    then have "filter (\<lambda>r. cell r col_canal = cell x col_canal) (rows f) \<noteq> []"
      by (auto simp: canais_de_def filter_empty_conv)
    then have "xs \<noteq> []"
      using xs by (metis map_is_Nil_conv)
    from mean_VNum [OF this] means [OF x] xs show ?thesis
      by simp
  qed
  have nth: "\<forall>i j. i < j \<and> j < length (rows cc) \<longrightarrow>
            (cell (rows cc ! i) col_taxa_media = VNaN \<longrightarrow> cell (rows cc ! j) col_taxa_media = VNaN) \<and>
            (\<forall>x y. cell (rows cc ! i) col_taxa_media = VNum x \<and>
                   cell (rows cc ! j) col_taxa_media = VNum y \<longrightarrow> y \<le> x)"
    using sorted_antes_nth [of col_taxa_media "rows cc"] sr by blast
  have "rows f1 \<noteq> []"
    using sr keep by auto
  moreover have "col_canal \<in> set (columns f1)"
    using sc keep by auto
  ultimately have prof: "\<exists>pf. p = Some pf \<and> p_canal pf = Some (cell melhor col_canal)"
    using perfil_ideal_canal [OF pi] by blast
  show ?thesis
    using keys means arith nth prof sc sr by auto
qed

lemma cells_grupo [simp]:
  "cell (grupo k m n) col_canal = k"
  "cell (grupo k m n) col_taxa_media = m"
  "cell (grupo k m n) col_qtd_parceiros = n"
  by (simp_all add: grupo_def cell_def)

lemma filtro_tres_cols:
  "col_canal \<in> set (columns filtro_tres)" "col_taxa_conv \<in> set (columns filtro_tres)"
  "col_taxa_qual \<in> set (columns filtro_tres)" "col_nome \<in> set (columns filtro_tres)"
  "col_nps \<in> set (columns filtro_tres)"
  "\<forall>c \<in> set colunas_risco. c \<in> set (columns filtro_tres)"
  by (simp_all add: filtro_tres_def colunas_carregadas_def colunas_base_def colunas_risco_def)

lemma chaves_tres:
  "chaves_grupo (map (\<lambda>r. cell r col_canal) (rows filtro_tres)) = [VStr ''Feira'', VStr ''Site'']"
  by (simp add: chaves_grupo_def filtro_tres_def tres_a_def tres_b_def tres_c_def chave_def)

lemma resumo_tres:
  "resumo_grupo filtro_tres (VStr ''Feira'') = Inr (grupo (VStr ''Feira'') (VNum (3 / 4)) (VNum 1))"
  "resumo_grupo filtro_tres (VStr ''Site'') = Inr (grupo (VStr ''Site'') (VNum (7 / 10)) (VNum 2))"
  by (simp_all add: resumo_grupo_def Let_def filtro_tres_def tres_a_def tres_b_def tres_c_def
      mean_def numeric_def as_float_def bind_err_def count_def grupo_def)

lemma agrupar_tres: "agrupar_canal filtro_tres = Inr canal_conv_tres"
  by (simp add: agrupar_canal_def bind_err_def series_def filtro_tres_cols chaves_tres
      resumo_tres canal_conv_tres_def)

lemma ordenar_tres:
  "sort_values argsort_estavel canal_conv_tres col_taxa_media False = Inr canal_conv_tres"
  by (simp add: sort_values_def canal_conv_tres_def nargsort_def Let_def argsort_estavel_def
      chave_def upt_rec)

lemma secao_canais_tres:
  "secao_canais argsort_estavel filtro_tres
     = Inr (Some (canal_conv_tres, grupo (VStr ''Feira'') (VNum (3 / 4)) (VNum 1)))"
proof -
  have "iloc0 canal_conv_tres = Inr (grupo (VStr ''Feira'') (VNum (3 / 4)) (VNum 1))"
    by (simp add: iloc0_def canal_conv_tres_def)
  then show ?thesis
    by (simp add: secao_canais_def bind_err_def filtro_tres_cols agrupar_tres ordenar_tres)
qed

lemma metricas_tres: "\<exists>ms. metricas filtro_tres = Inr ms"
  by (simp add: metricas_def bind_err_def series_def filtro_tres_cols)
     (simp add: filtro_tres_def tres_a_def tres_b_def tres_c_def mean_def numeric_def
        as_float_def)

lemma filtro_tres_num:
  "\<forall>r \<in> set (rows filtro_tres).
     numeric (cell r col_nps) \<and> numeric (cell r col_dias) \<and> numeric (cell r col_taxa_conv)"
  by (simp add: filtro_tres_def tres_a_def tres_b_def tres_c_def numeric_def)

lemma top_parceiros_total:
  assumes "argsort_ok a" and "col_taxa_conv \<in> set (columns f)"
  shows "\<exists>tp. top_parceiros a f = Inr tp"
  using sort_values_desc [OF assms] by (auto simp: top_parceiros_def bind_err_def)

lemma risco_ou_aviso_total:
  assumes "\<forall>c \<in> set colunas_risco. c \<in> set (columns f)"
    and "\<forall>r \<in> set (rows f). numeric (cell r col_nps) \<and> numeric (cell r col_dias) \<and>
           numeric (cell r col_taxa_conv)"
  shows "\<exists>f1 rc. secao_risco a f = Inr (f1, rc) \<and> risco_ou_aviso a f = Inr (f1, Some rc)"
proof -
  obtain m where m: "mascara_risco f = Inr m"
    using mascara_risco_total [OF assms] by blast
  obtain rc where "secao_risco a f = Inr (set_column f col_risco (map VBool m), rc)"
    using secao_risco_total [OF assms(1) m] by blast
  then show ?thesis
    by (simp add: risco_ou_aviso_def)
qed

lemma perfil_ideal_total:
  assumes "col_taxa_conv \<in> set (columns f1)"
  shows "\<exists>p. perfil_ideal q75 f1 (Some melhor) = Inr p"
  using assms by (simp add: perfil_ideal_def bind_err_def series_def)

theorem melhor_canal_coerente_witness:
  "argsort_ok argsort_estavel \<and>
   load_data conv_exemplo 1704153600000000000 (Inr base_tres) = (None, filtro_tres) \<and>
   (\<exists>ms tp risco pf.
      painel argsort_estavel q75_exemplo filtro_tres
        = Inr (ms, tp, Some (canal_conv_tres, grupo (VStr ''Feira'') (VNum (3 / 4)) (VNum 1)),
               risco, Some pf) \<and>
      p_canal pf = Some (VStr ''Feira'')) \<and>
   canais_de canal_conv_tres = [VStr ''Feira'', VStr ''Site''] \<and>
   medias canal_conv_tres = [VNum (3 / 4), VNum (7 / 10)] \<and>
   taxas filtro_tres = [VNum (9 / 10), VNum (3 / 4), VNum (1 / 2)] \<and>
   canais_de filtro_tres = [VStr ''Site'', VStr ''Feira'', VStr ''Site'']"
proof -
  let ?melhor = "grupo (VStr ''Feira'') (VNum (3 / 4)) (VNum 1)"
  obtain ms where ms: "metricas filtro_tres = Inr ms"
    using metricas_tres by blast
  obtain tp where tp: "top_parceiros argsort_estavel filtro_tres = Inr tp"
    using top_parceiros_total [OF argsort_ok_estavel filtro_tres_cols(2)] by blast
  obtain f1 rc where ra: "risco_ou_aviso argsort_estavel filtro_tres = Inr (f1, Some rc)"
    using risco_ou_aviso_total [OF filtro_tres_cols(6) filtro_tres_num] by blast
  have "col_taxa_conv \<in> set (columns f1)"
    using risco_ou_aviso_keeps [OF ra] filtro_tres_cols(2) by auto
  then obtain p where p: "perfil_ideal q75_exemplo f1 (Some ?melhor) = Inr p"
    using perfil_ideal_total by blast
  have run: "painel argsort_estavel q75_exemplo filtro_tres
      = Inr (ms, tp, Some (canal_conv_tres, ?melhor), Some rc, p)"
    by (simp add: painel_def bind_err_def ms tp secao_canais_tres ra p)
  have cells: "hd (rows canal_conv_tres) = ?melhor"
    "canais_de canal_conv_tres = [VStr ''Feira'', VStr ''Site'']"
    "medias canal_conv_tres = [VNum (3 / 4), VNum (7 / 10)]"
    by (simp_all add: canal_conv_tres_def canais_de_def medias_def)
  have ins: "taxas filtro_tres = [VNum (9 / 10), VNum (3 / 4), VNum (1 / 2)]"
    "canais_de filtro_tres = [VStr ''Site'', VStr ''Feira'', VStr ''Site'']"
    by (simp_all add: filtro_tres_def taxas_def canais_de_def tres_a_def tres_b_def tres_c_def)
  from melhor_canal_coerente [OF argsort_ok_estavel run] obtain pf where
    pf: "p = Some pf" "p_canal pf = Some (cell (hd (rows canal_conv_tres)) col_canal)"
    by blast
  have "p_canal pf = Some (VStr ''Feira'')"
    using pf(2) cells(1) by simp
  then show ?thesis
    using run pf(1) cells(2,3) ins argsort_ok_estavel load_data_tres by blast
qed

end
